theory Spec2Isabelle
  imports Main "HOL-Library.Sublist" "HOL-Library.Char_ord" "HOL-Library.List_Lexorder"
    "HOL-Library.Product_Lexorder"
begin

section \<open>The JavaScript runtime: strings, numbers, thrown errors\<close>

text \<open>
  A JavaScript string is modelled as a \<^typ>\<open>string\<close> whose characters are the code
  units \<open>0..255\<close>. Every string the modelled code inspects character by character
  (time labels, the \<open>title\<close> of a marker, regular-expression matches) lies in that range.
  A JavaScript \<open>number\<close> is an \<^typ>\<open>int option\<close>: \<open>None\<close> is \<open>NaN\<close>; the hours,
  minutes and counts of this program are whole numbers far below \<open>2^53\<close>.
  A thrown value is an \<open>Error\<close> object, kept by its \<open>message\<close>.
\<close>

datatype error = Error (err_message: string)

type_synonym jsnum = "int option"

definition is_digit :: "char \<Rightarrow> bool" where
  "is_digit c = (c \<in> set ''0123456789'')"

text \<open>The white space of \<open>\s\<close> and of \<open>String.prototype.trim\<close> among the code units
  below 256: tab, line feed, vertical tab, form feed, carriage return, space and the
  no-break space.\<close>

definition is_space :: "char \<Rightarrow> bool" where
  "is_space c = (c \<in> set [CHR 0x09, CHR 0x0A, CHR 0x0B, CHR 0x0C, CHR 0x0D, CHR 0x20, CHR 0xA0])"

definition trim :: "string \<Rightarrow> string" where
  "trim s = rev (dropWhile is_space (rev (dropWhile is_space s)))"

definition digit_val :: "char \<Rightarrow> nat" where
  "digit_val c = of_char c - 48"

definition digit_char :: "nat \<Rightarrow> char" where
  "digit_char n = ''0123456789'' ! (n mod 10)"

definition dec :: "string \<Rightarrow> nat" where
  "dec ds = foldl (\<lambda>n c. 10 * n + digit_val c) 0 ds"

fun show_nat :: "nat \<Rightarrow> string" where
  "show_nat n = (if n < 10 then [digit_char n] else show_nat (n div 10) @ [digit_char (n mod 10)])"

declare show_nat.simps [simp del]

text \<open>\<open>Number.prototype.toString\<close> (also what a template literal applies).\<close>

definition num_toString :: "jsnum \<Rightarrow> string" where
  "num_toString x =
     (case x of None \<Rightarrow> ''NaN''
      | Some i \<Rightarrow> if i < 0 then CHR ''-'' # show_nat (nat (- i)) else show_nat (nat i))"

text \<open>\<open>s.padStart(2, "0")\<close>.\<close>

definition padStart2 :: "string \<Rightarrow> string" where
  "padStart2 s = replicate (2 - length s) (CHR ''0'') @ s"

text \<open>\<open>parseInt(s, 10)\<close>: leading white space, an optional sign, then the longest run of
  digits; \<open>NaN\<close> when there is no digit.\<close>

definition parseInt10 :: "string \<Rightarrow> jsnum" where
  "parseInt10 s =
     (let s1 = dropWhile is_space s;
          neg = (case s1 of c # _ \<Rightarrow> c = CHR ''-'' | [] \<Rightarrow> False);
          s2 = (case s1 of c # r \<Rightarrow> if c = CHR ''-'' \<or> c = CHR ''+'' then r else s1 | [] \<Rightarrow> s1);
          ds = takeWhile is_digit s2
      in if ds = [] then None
         else Some (if neg then - int (dec ds) else int (dec ds)))"

text \<open>\<open>Number(s)\<close> on the strings this program converts: white space is trimmed, the empty
  string is \<open>0\<close>, a run of digits is its decimal value. Every other string is taken to
  \<open>NaN\<close>; that is what JavaScript does unless the string is a signed, fractional,
  exponent or radix-prefixed literal, which neither \<open>to24h\<close> nor a validated
  \<open>time_24h\<close> (\<open>/^\d{2}:\d{2}$/\<close> in index.ts) ever is.\<close>

definition Number_js :: "string \<Rightarrow> jsnum" where
  "Number_js s =
     (let t = trim s
      in if t = [] then Some 0
         else if list_all is_digit t then Some (int (dec t))
         else None)"

text \<open>\<open>s.split(sep)\<close> for a separator of one character; \<open>split_on\<close> takes the
  separator as a predicate (the line terminators of \<open>.\<close> in a regular expression).\<close>

fun split_on :: "(char \<Rightarrow> bool) \<Rightarrow> string \<Rightarrow> string list" where
  "split_on sep [] = [[]]"
| "split_on sep (c # cs) =
     (if sep c then [] # split_on sep cs
      else (case split_on sep cs of p # ps \<Rightarrow> (c # p) # ps | [] \<Rightarrow> [[c]]))"

definition split_colon :: "string \<Rightarrow> string list" where
  "split_colon s = split_on (\<lambda>c. c = CHR '':'') s"

text \<open>An array element read by destructuring; a missing element is \<open>undefined\<close>, which
  arithmetic turns into \<open>NaN\<close>.\<close>

definition nth_num :: "jsnum list \<Rightarrow> nat \<Rightarrow> jsnum" where
  "nth_num xs i = (if i < length xs then xs ! i else None)"

definition num_add :: "jsnum \<Rightarrow> jsnum \<Rightarrow> jsnum" where
  "num_add a b = (case (a, b) of (Some x, Some y) \<Rightarrow> Some (x + y) | _ \<Rightarrow> None)"

definition num_sub :: "jsnum \<Rightarrow> jsnum \<Rightarrow> jsnum" where
  "num_sub a b = (case (a, b) of (Some x, Some y) \<Rightarrow> Some (x - y) | _ \<Rightarrow> None)"

definition num_mul :: "jsnum \<Rightarrow> jsnum \<Rightarrow> jsnum" where
  "num_mul a b = (case (a, b) of (Some x, Some y) \<Rightarrow> Some (x * y) | _ \<Rightarrow> None)"

text \<open>Comparisons: every comparison with \<open>NaN\<close> is false.\<close>

definition num_lt :: "jsnum \<Rightarrow> jsnum \<Rightarrow> bool" where
  "num_lt a b = (case (a, b) of (Some x, Some y) \<Rightarrow> x < y | _ \<Rightarrow> False)"

definition num_ge :: "jsnum \<Rightarrow> jsnum \<Rightarrow> bool" where
  "num_ge a b = (case (a, b) of (Some x, Some y) \<Rightarrow> x \<ge> y | _ \<Rightarrow> False)"

definition num_gt :: "jsnum \<Rightarrow> jsnum \<Rightarrow> bool" where
  "num_gt a b = (case (a, b) of (Some x, Some y) \<Rightarrow> x > y | _ \<Rightarrow> False)"

text \<open>\<open>toUpperCase\<close> on the ASCII letters (it is applied to a matched \<open>AM\<close>/\<open>PM\<close> only)
  and \<open>toLowerCase\<close> on the code units below 256.\<close>

definition toUpperCase_c :: "char \<Rightarrow> char" where
  "toUpperCase_c c =
     (if 97 \<le> (of_char c :: nat) \<and> (of_char c :: nat) \<le> 122 then char_of (of_char c - 32 :: nat) else c)"

definition toLowerCase_c :: "char \<Rightarrow> char" where
  "toLowerCase_c c =
     (let n = (of_char c :: nat)
      in if (65 \<le> n \<and> n \<le> 90) \<or> (192 \<le> n \<and> n \<le> 222 \<and> n \<noteq> 215) then char_of (n + 32) else c)"

definition toUpperCase :: "string \<Rightarrow> string" where
  "toUpperCase s = map toUpperCase_c s"

definition toLowerCase :: "string \<Rightarrow> string" where
  "toLowerCase s = map toLowerCase_c s"

text \<open>\<open>haystack.includes(needle)\<close> and \<open>s.startsWith(p)\<close>.\<close>

fun includes_js :: "string \<Rightarrow> string \<Rightarrow> bool" where
  "includes_js [] needle = (needle = [])"
| "includes_js (c # cs) needle = (prefix needle (c # cs) \<or> includes_js cs needle)"

definition startsWith :: "string \<Rightarrow> string \<Rightarrow> bool" where
  "startsWith s p = prefix p s"

text \<open>\<open>/p/i.test(s)\<close> for a pattern \<open>p\<close> of literal ASCII characters, and
  \<open>/a.*b/i.test(s)\<close>: \<open>a\<close>, then \<open>b\<close> later on the same line.\<close>

definition test_ci :: "string \<Rightarrow> string \<Rightarrow> bool" where
  "test_ci p s = includes_js (toLowerCase s) (toLowerCase p)"

fun after_first :: "string \<Rightarrow> string \<Rightarrow> string option" where
  "after_first [] needle = (if needle = [] then Some [] else None)"
| "after_first (c # cs) needle =
     (if prefix needle (c # cs) then Some (drop (length needle) (c # cs))
      else after_first cs needle)"

definition test_gap_ci :: "string \<Rightarrow> string \<Rightarrow> string \<Rightarrow> bool" where
  "test_gap_ci a b s =
     list_ex (\<lambda>line. case after_first line (toLowerCase a) of
                          None \<Rightarrow> False
                        | Some rest \<Rightarrow> includes_js rest (toLowerCase b))
       (split_on (\<lambda>c. c = CHR 0x0A \<or> c = CHR 0x0D) (toLowerCase s))"

section \<open>Time labels\<close>

text \<open>
  The pattern \<open>(\d{1,2}):(\d{2})\s*(AM|PM)\<close> matched at the head of a string. The result
  is the hour digits, the minute digits, the white space, the meridiem letters and
  the rest of the string. \<open>ci\<close> is the \<open>i\<close> flag. Each quantifier has one way to match:
  a second hour digit cannot be the colon, and white space cannot be the \<open>A\<close> or \<open>P\<close>.
\<close>

fun take_hour :: "string \<Rightarrow> (string \<times> string) option" where
  "take_hour (a # b # c # r) =
     (if is_digit a \<and> is_digit b \<and> c = CHR '':'' then Some ([a, b], r)
      else if is_digit a \<and> b = CHR '':'' then Some ([a], c # r)
      else None)"
| "take_hour [a, b] = (if is_digit a \<and> b = CHR '':'' then Some ([a], []) else None)"
| "take_hour _ = None"

definition is_ampm :: "bool \<Rightarrow> char \<Rightarrow> char \<Rightarrow> bool" where
  "is_ampm ci x y =
     (if ci then x \<in> set ''AaPp'' \<and> y \<in> set ''Mm''
      else x \<in> set ''AP'' \<and> y = CHR ''M'')"

definition match_time12 ::
  "bool \<Rightarrow> string \<Rightarrow> (string \<times> string \<times> string \<times> string \<times> string) option" where
  "match_time12 ci s =
     (case take_hour s of
        None \<Rightarrow> None
      | Some (hh, r) \<Rightarrow>
          (case r of
             m1 # m2 # r2 \<Rightarrow>
               if is_digit m1 \<and> is_digit m2 then
                 (case dropWhile is_space r2 of
                    x # y # rest \<Rightarrow>
                      if is_ampm ci x y
                      then Some (hh, [m1, m2], takeWhile is_space r2, [x, y], rest)
                      else None
                  | _ \<Rightarrow> None)
               else None
           | _ \<Rightarrow> None))"

text \<open>The leftmost match of the pattern anywhere in the string (\<open>text.match(re)\<close>).\<close>

fun find_time12 ::
  "bool \<Rightarrow> string \<Rightarrow> (string \<times> string \<times> string \<times> string \<times> string) option" where
  "find_time12 ci [] = None"
| "find_time12 ci (c # cs) =
     (case match_time12 ci (c # cs) of Some m \<Rightarrow> Some m | None \<Rightarrow> find_time12 ci cs)"

text \<open>\<open>parseTimeFromText\<close>, src/src/ubc.ts lines 159-175.\<close>

definition parseTimeFromText :: "string \<Rightarrow> string option" where
  "parseTimeFromText raw =
     (let text = trim raw
      in if text = [] then None
         else (case find_time12 True text of
                 None \<Rightarrow> None
               | Some (m1, minute, ws, m3, rest) \<Rightarrow>
                   (let hour = parseInt10 m1;
                        ampm = toUpperCase m3;
                        hour1 = (if ampm = ''PM'' \<and> hour \<noteq> Some 12 then num_add hour (Some 12) else hour);
                        hour2 = (if ampm = ''AM'' \<and> hour1 = Some 12 then Some 0 else hour1);
                        hh = padStart2 (num_toString hour2)
                    in Some (hh @ '':'' @ minute))))"

text \<open>\<open>to24h\<close>, src/unnamed/part_003 lines 321-331: the same pattern anchored at both ends
  of the trimmed label.\<close>

definition to24h :: "string \<Rightarrow> string option" where
  "to24h time12 =
     (case match_time12 True (trim time12) of
        None \<Rightarrow> None
      | Some (hh, mm, ws, ampm, rest) \<Rightarrow>
          if rest \<noteq> [] then None
          else (let h = parseInt10 hh;
                    isPM = (toUpperCase ampm = ''PM'');
                    h' = (if h = Some 12 \<and> \<not> isPM then Some 0
                          else if h \<noteq> Some 12 \<and> isPM then num_add h (Some 12)
                          else h)
                in Some (padStart2 (num_toString h') @ '':'' @ mm)))"

text \<open>\<open>durationMinutes\<close>, src/unnamed/part_003 lines 333-337.\<close>

definition durationMinutes :: "string \<Rightarrow> string \<Rightarrow> jsnum" where
  "durationMinutes start24 end24 =
     (let s = map Number_js (split_colon start24);
          e = map Number_js (split_colon end24);
          sh = nth_num s 0; sm = nth_num s 1;
          eh = nth_num e 0; em = nth_num e 1
      in num_sub (num_add (num_mul eh (Some 60)) em) (num_add (num_mul sh (Some 60)) sm))"

text \<open>The 24-hour to 12-hour conversion of the booking pipeline, src/unnamed/part_003
  lines 668-671. \<open>minute.toString()\<close> throws a \<open>TypeError\<close> when the request's time has
  no second component.\<close>

definition time12h_of :: "string \<Rightarrow> error + string" where
  "time12h_of time_24h =
     (case map Number_js (split_colon time_24h) of
        hour # minute # _ \<Rightarrow>
          (let hour12 = (if hour = Some 0 then Some 12
                         else if num_gt hour (Some 12) then num_sub hour (Some 12)
                         else hour);
               ampm = (if num_ge hour (Some 12) then ''PM'' else ''AM'')
           in Inr (num_toString hour12 @ '':'' @ padStart2 (num_toString minute) @ '' '' @ ampm))
      | _ \<Rightarrow> Inl (Error ''Cannot read properties of undefined (reading 'toString')''))"

text \<open>The time range of a marker's \<open>title\<close>, src/unnamed/part_003 lines 410-412:
  \<open>([0-9]{1,2}:[0-9]{2}\s*(?:AM|PM))\s*-\s*([0-9]{1,2}:[0-9]{2}\s*(?:AM|PM))\<close>, without the
  \<open>i\<close> flag, matched leftmost anywhere in the title. The result is the text of the two
  groups.\<close>

definition match_range_at :: "string \<Rightarrow> (string \<times> string) option" where
  "match_range_at s =
     (case match_time12 False s of
        None \<Rightarrow> None
      | Some (hh1, mm1, ws1, ap1, r1) \<Rightarrow>
          (case dropWhile is_space r1 of
             d # r2 \<Rightarrow>
               if d = CHR ''-'' then
                 (case match_time12 False (dropWhile is_space r2) of
                    None \<Rightarrow> None
                  | Some (hh2, mm2, ws2, ap2, r3) \<Rightarrow>
                      Some (hh1 @ '':'' @ mm1 @ ws1 @ ap1, hh2 @ '':'' @ mm2 @ ws2 @ ap2))
               else None
           | [] \<Rightarrow> None))"

fun find_range :: "string \<Rightarrow> (string \<times> string) option" where
  "find_range [] = None"
| "find_range (c # cs) =
     (case match_range_at (c # cs) of Some m \<Rightarrow> Some m | None \<Rightarrow> find_range cs)"

text \<open>\<open>/^book\s+now$/i.test(s)\<close> and \<open>/^\d{4}-\d{2}-\d{2}$/.test(s)\<close>.\<close>

definition is_book_now :: "string \<Rightarrow> bool" where
  "is_book_now s =
     (let t = toLowerCase s
      in prefix ''book'' t \<and> takeWhile is_space (drop 4 t) \<noteq> [] \<and>
         dropWhile is_space (drop 4 t) = ''now'')"

definition is_iso_date :: "string \<Rightarrow> bool" where
  "is_iso_date s =
     (case s of
        [y1, y2, y3, y4, h1, m1, m2, h2, d1, d2] \<Rightarrow>
          is_digit y1 \<and> is_digit y2 \<and> is_digit y3 \<and> is_digit y4 \<and> h1 = CHR ''-'' \<and>
          is_digit m1 \<and> is_digit m2 \<and> h2 = CHR ''-'' \<and> is_digit d1 \<and> is_digit d2
      | _ \<Rightarrow> False)"

section \<open>Data model\<close>

text \<open>The exported types of \<open>ubc.ts\<close>. An optional field is an \<open>option\<close>; \<open>None\<close> is
  \<open>undefined\<close> (for \<open>deep_link\<close>, \<open>null\<close>).\<close>

record Preferences =
  days_ahead :: "int option"
  start_hour :: "int option"
  end_hour :: "int option"
  min_minutes :: "int option"
  indoor_only :: "bool option"
  locations :: "string list option"
  dates :: "string list option"

record Slot =
  date_iso :: string
  time_24h :: string
  minutes :: jsnum
  location :: string
  deep_link :: "string option"

record BookingRequest =
  facility_url :: string
  req_time_24h :: string
  duration_hours :: int
  num_people :: int

record BookedSlot =
  bs_time :: string
  bs_duration :: int
  bs_location :: string

record BookingResult =
  success :: bool
  confirmation_number :: "string option"
  message :: string
  booked_slot :: "BookedSlot option"

section \<open>The browser as a script of observations\<close>

text \<open>
  The program drives a browser through Playwright. Every awaited call either rejects
  (the \<open>error\<close> is thrown at the \<open>await\<close>) or resolves to a value read from the page.
  The model takes these outcomes as data: a record per page view, holding, in program
  order, what each call the code makes there resolves to or rejects with. A field of
  type \<open>error option\<close> is a call made for its effect (\<open>None\<close>: it resolved); a field
  of type \<open>error + 'a\<close> is a call made for its value. Where the source attaches
  \<open>.catch(() => d)\<close> the model applies \<open>orElse\<close>. Logging is left out.
\<close>

definition andThen :: "error option \<Rightarrow> (error + 'a) \<Rightarrow> error + 'a" where
  "andThen r k = (case r of Some e \<Rightarrow> Inl e | None \<Rightarrow> k)"

definition bindE :: "(error + 'a) \<Rightarrow> ('a \<Rightarrow> error + 'b) \<Rightarrow> error + 'b" where
  "bindE r k = (case r of Inl e \<Rightarrow> Inl e | Inr v \<Rightarrow> k v)"

definition orElse :: "(error + 'a) \<Rightarrow> 'a \<Rightarrow> 'a" where
  "orElse r d = (case r of Inl e \<Rightarrow> d | Inr v \<Rightarrow> v)"

text \<open>A \<open>Page\<close> object is known by its identity. The interactions a flow performs on
  pages are recorded in the order they are started.\<close>

type_synonym page = nat

datatype action =
    Click string
  | Fill string string
  | Goto string
  | WaitForLoadState page
  | WaitFor string

type_synonym 'a flow = "(error + 'a) \<times> action list"

definition act :: "action \<Rightarrow> error option \<Rightarrow> 'a flow \<Rightarrow> 'a flow" where
  "act a r k = (case r of Some e \<Rightarrow> (Inl e, [a]) | None \<Rightarrow> (fst k, a # snd k))"

definition ret :: "'a \<Rightarrow> 'a flow" where
  "ret v = (Inr v, [])"

section \<open>The login flow\<close>

record login_obs =
  lo_loginVisible :: "error + bool"
  lo_popup1 :: "page option"
  lo_loginClick :: "error option"
  lo_load1 :: "error option"
  lo_cwlVisible :: "(error + bool) list"
  lo_popup2 :: "page option"
  lo_cwlClick :: "error option"
  lo_load2 :: "error option"
  lo_userWait :: "error option"
  lo_passWait :: "error option"
  lo_userFill :: "error option"
  lo_passFill :: "error option"
  lo_submitClick :: "error option"
  lo_idle :: "error option"
  lo_urlAfter :: string
  lo_gotoBase :: "error option"

text \<open>
  \<open>ensureLoggedIn\<close>, src/src/ubc.ts lines 30-133. \<open>lo_popup1\<close> and \<open>lo_popup2\<close> are
  \<open>context.waitForEvent("page").catch(() => null)\<close>; \<open>lo_cwlVisible\<close> holds
  \<open>isVisible()\<close> of the four candidates for the CWL button. \<open>loginForm\<close> is lines
  91-132, the part after the CWL button.
\<close>

definition loginForm :: "string \<Rightarrow> string \<Rightarrow> string \<Rightarrow> login_obs \<Rightarrow> page \<Rightarrow> page flow" where
  "loginForm BASE_URL user pass w authPage =
     act (WaitFor ''username'') (lo_userWait w)
    (act (WaitFor ''password'') (lo_passWait w)
    (act (Fill ''username'' user) (lo_userFill w)
    (act (Fill ''password'' pass) (lo_passFill w)
    (act (Click ''submit'') (lo_submitClick w)
    (act (WaitForLoadState authPage) (lo_idle w)
    (let baseNoQuery = takeWhile (\<lambda>c. c \<noteq> CHR ''?'') BASE_URL
     in if \<not> startsWith (lo_urlAfter w) baseNoQuery
        then act (Goto BASE_URL) (lo_gotoBase w) (ret authPage)
        else ret authPage))))))"

definition cwlStep :: "string \<Rightarrow> string \<Rightarrow> string \<Rightarrow> login_obs \<Rightarrow> page \<Rightarrow> page flow" where
  "cwlStep BASE_URL user pass w authPage =
     (if list_ex (\<lambda>v. orElse v False) (lo_cwlVisible w)
      then act (Click ''CWL Login'') (lo_cwlClick w)
             (let authPage' = (case lo_popup2 w of Some p \<Rightarrow> p | None \<Rightarrow> authPage)
              in act (WaitForLoadState authPage') (lo_load2 w)
                   (loginForm BASE_URL user pass w authPage'))
      else loginForm BASE_URL user pass w authPage)"

definition ensureLoggedIn :: "string \<Rightarrow> string \<Rightarrow> string \<Rightarrow> login_obs \<Rightarrow> page \<Rightarrow> page flow" where
  "ensureLoggedIn BASE_URL user pass w page =
     (let loginVisible = orElse (lo_loginVisible w) False
      in if \<not> loginVisible then ret page
         else act (Click ''Login'') (lo_loginClick w)
                (let authPage = (case lo_popup1 w of Some p \<Rightarrow> p | None \<Rightarrow> page)
                 in act (WaitForLoadState authPage) (lo_load1 w)
                      (cwlStep BASE_URL user pass w authPage)))"

text \<open>
  \<open>ensureLoggedIn\<close> of the revision of \<open>ubc.ts\<close> that exports \<open>bookSlot\<close>,
  src/unnamed/part_003 lines 213-317. It differs in reading the credentials from the
  process environment and throwing when one is empty (lines 273-277).
\<close>

definition loginForm_r2 :: "string \<Rightarrow> string \<Rightarrow> string \<Rightarrow> login_obs \<Rightarrow> page \<Rightarrow> page flow" where
  "loginForm_r2 BASE_URL user pass w authPage =
     (if user = [] \<or> pass = []
      then (Inl (Error ''UBC_USER and UBC_PASS must be set in environment''), [])
      else loginForm BASE_URL user pass w authPage)"

definition cwlStep_r2 :: "string \<Rightarrow> string \<Rightarrow> string \<Rightarrow> login_obs \<Rightarrow> page \<Rightarrow> page flow" where
  "cwlStep_r2 BASE_URL user pass w authPage =
     (if list_ex (\<lambda>v. orElse v False) (lo_cwlVisible w)
      then act (Click ''CWL Login'') (lo_cwlClick w)
             (let authPage' = (case lo_popup2 w of Some p \<Rightarrow> p | None \<Rightarrow> authPage)
              in act (WaitForLoadState authPage') (lo_load2 w)
                   (loginForm_r2 BASE_URL user pass w authPage'))
      else loginForm_r2 BASE_URL user pass w authPage)"

definition ensureLoggedIn_r2 :: "string \<Rightarrow> string \<Rightarrow> string \<Rightarrow> login_obs \<Rightarrow> page \<Rightarrow> page flow" where
  "ensureLoggedIn_r2 BASE_URL user pass w page =
     (let loginVisible = orElse (lo_loginVisible w) False
      in if \<not> loginVisible then ret page
         else act (Click ''Login'') (lo_loginClick w)
                (let authPage = (case lo_popup1 w of Some p \<Rightarrow> p | None \<Rightarrow> page)
                 in act (WaitForLoadState authPage) (lo_load1 w)
                      (cwlStep_r2 BASE_URL user pass w authPage)))"

section \<open>The browser session of a public operation\<close>

text \<open>
  \<open>chromium.launch\<close>, \<open>browser.newContext\<close>, \<open>context.newPage\<close> and the
  \<open>browser.close\<close> of the \<open>finally\<close> block. The state of the browser process is
  returned with the operation's outcome. A \<open>close\<close> that rejects leaves the browser
  \<open>Running\<close> and its error replaces the outcome, as an exception thrown in a
  \<open>finally\<close> block does.
\<close>

datatype browser = NotLaunched | Running | Closed

record session_obs =
  ses_launch :: "error option"
  ses_newContext :: "error option"
  ses_newPage :: "error option"
  ses_close :: "error option"

text \<open>The three statements before \<open>try\<close>, the same in every public operation: the
  error thrown there and the state the browser is left in, or \<open>None\<close> when the session
  is set up.\<close>

definition openSession :: "session_obs \<Rightarrow> (error \<times> browser) option" where
  "openSession s =
     (case ses_launch s of
        Some e \<Rightarrow> Some (e, NotLaunched)
      | None \<Rightarrow>
          (case ses_newContext s of
             Some e \<Rightarrow> Some (e, Running)
           | None \<Rightarrow>
               (case ses_newPage s of
                  Some e \<Rightarrow> Some (e, Running)
                | None \<Rightarrow> None)))"

definition finallyClose :: "session_obs \<Rightarrow> (error + 'a) \<Rightarrow> (error + 'a) \<times> browser" where
  "finallyClose s r = (case ses_close s of Some e \<Rightarrow> (Inl e, Running) | None \<Rightarrow> (r, Closed))"

section \<open>The scanner that parses marker titles\<close>

text \<open>
  The revision of \<open>ubc.ts\<close> that exports \<open>bookSlot\<close>, src/unnamed/part_003 lines
  169-1154 (the revision index.ts of src/unnamed/part_001 imports). Its names carry the
  suffix \<open>_r2\<close> where src/src/ubc.ts defines a function of the same name.

  A marker (\<open>span\<close>) of the schedule view: \<open>sp_visible\<close> is
  \<open>isVisible().catch(() => false)\<close>, \<open>sp_innerText\<close> is \<open>innerText().catch(() => "")\<close>,
  \<open>sp_available\<close> and \<open>sp_dataDate\<close> are the two \<open>span.evaluate\<close> calls (they run in
  the page), \<open>sp_title\<close> is \<open>getAttribute("title")\<close>.
\<close>

record span_obs =
  sp_visible :: bool
  sp_innerText :: string
  sp_available :: "error + bool"
  sp_title :: "error + string option"
  sp_dataDate :: "error + string"

record sched_obs =
  sch_spans :: "error + span_obs list"
  sch_url :: string

text \<open>The body of the loop of \<open>extractSlotsFromScheduler\<close>, lines 361-475; \<open>Inr None\<close> is
  \<open>continue\<close>, \<open>Inr (Some slot)\<close> is \<open>slots.push(slot)\<close>.\<close>

definition scanSpan ::
  "string \<Rightarrow> string \<Rightarrow> Preferences \<Rightarrow> string \<Rightarrow> span_obs \<Rightarrow> error + Slot option" where
  "scanSpan today url prefs courtLabel span =
     (if \<not> sp_visible span then Inr None
      else if \<not> is_book_now (trim (sp_innerText span)) then Inr None
      else bindE (sp_available span) (\<lambda>isAvailable.
        if \<not> isAvailable then Inr None
        else bindE (sp_title span) (\<lambda>t.
          let titleAttr = (case t of None \<Rightarrow> [] | Some x \<Rightarrow> x)
          in case find_range titleAttr of
               None \<Rightarrow> Inr None
             | Some (m1, m2) \<Rightarrow>
                 (case (to24h m1, to24h m2) of
                    (Some start24, Some end24) \<Rightarrow>
                      if start24 = [] \<or> end24 = [] then Inr None
                      else
                        let mins = durationMinutes start24 end24;
                            h = parseInt10 (case split_colon start24 of x # _ \<Rightarrow> x | [] \<Rightarrow> ''undefined'')
                        in if (case start_hour prefs of
                                 None \<Rightarrow> False | Some sh \<Rightarrow> num_lt h (Some sh)) then Inr None
                           else if (case end_hour prefs of
                                 None \<Rightarrow> False | Some eh \<Rightarrow> num_ge h (Some eh)) then Inr None
                           else if (case min_minutes prefs of
                                 None \<Rightarrow> False | Some mm \<Rightarrow> num_lt mins (Some mm)) then Inr None
                           else bindE (sp_dataDate span) (\<lambda>dateIso.
                                  Inr (Some \<lparr> date_iso = (if dateIso \<noteq> [] \<and> is_iso_date dateIso
                                                           then dateIso else today),
                                              time_24h = start24,
                                              minutes = mins,
                                              location = courtLabel,
                                              deep_link = Some url \<rparr>))
                  | _ \<Rightarrow> Inr None))))"

fun extractLoop ::
  "string \<Rightarrow> string \<Rightarrow> Preferences \<Rightarrow> string \<Rightarrow> span_obs list \<Rightarrow> Slot list \<Rightarrow> error + Slot list" where
  "extractLoop today url prefs courtLabel [] slots = Inr slots"
| "extractLoop today url prefs courtLabel (span # spans) slots =
     (case scanSpan today url prefs courtLabel span of
        Inl e \<Rightarrow> Inl e
      | Inr None \<Rightarrow> extractLoop today url prefs courtLabel spans slots
      | Inr (Some slot) \<Rightarrow> extractLoop today url prefs courtLabel spans (slots @ [slot]))"

definition extractSlotsFromScheduler ::
  "string \<Rightarrow> sched_obs \<Rightarrow> Preferences \<Rightarrow> string \<Rightarrow> error + Slot list" where
  "extractSlotsFromScheduler today page prefs courtLabel =
     bindE (sch_spans page) (\<lambda>spans.
       extractLoop today (sch_url page) prefs courtLabel spans [])"

section \<open>The scanner that reads the schedule table\<close>

text \<open>
  src/src/ubc.ts. A row of the schedule table: \<open>row_timeText\<close> is
  \<open>timeCell.innerText().catch(() => "")\<close>, \<open>row_bookNowCount\<close> is the \<open>count()\<close> of the
  "Book Now" cells. \<open>tbl_innerText\<close> is \<open>t.innerText().catch(() => "")\<close>.
\<close>

record row_obs =
  row_timeText :: string
  row_bookNowCount :: "error + nat"

record table_obs =
  tbl_innerText :: string
  tbl_rows :: "error + row_obs list"

record facility_obs =
  fac_tables :: "error + table_obs list"
  fac_clickable :: "error + nat"
  fac_url :: string

text \<open>\<open>debugListClickable\<close>, lines 270-288: it prints, and throws when
  \<open>clickable.count()\<close> rejects; every other read has a \<open>catch\<close>.\<close>

definition debugListClickable :: "(error + nat) \<Rightarrow> error + unit" where
  "debugListClickable clickable = bindE clickable (\<lambda>count. Inr ())"

text \<open>\<open>inferCourtName\<close>, lines 137-151, from \<open>card.innerText()\<close>.\<close>

definition inferCourtName :: "(error + string) \<Rightarrow> string" where
  "inferCourtName cardText =
     (case cardText of
        Inl e \<Rightarrow> ''Unknown court''
      | Inr t \<Rightarrow>
          (case filter (\<lambda>l. l \<noteq> []) (map trim (split_on (\<lambda>c. c = CHR 0x0A) (trim t))) of
             [] \<Rightarrow> ''Unknown court''
           | firstLine # _ \<Rightarrow> firstLine))"

text \<open>The loop over the rows of \<open>scanSingleCourtPage\<close>, lines 222-261.\<close>

fun scanRows ::
  "string \<Rightarrow> string \<Rightarrow> Preferences \<Rightarrow> string \<Rightarrow> row_obs list \<Rightarrow> Slot list \<Rightarrow> error + Slot list" where
  "scanRows todayIso url prefs courtName [] slots = Inr slots"
| "scanRows todayIso url prefs courtName (row # rows) slots =
     (case parseTimeFromText (trim (row_timeText row)) of
        None \<Rightarrow> scanRows todayIso url prefs courtName rows slots
      | Some time24h \<Rightarrow>
          if time24h = [] then scanRows todayIso url prefs courtName rows slots
          else
            let prefsStart = (case start_hour prefs of None \<Rightarrow> 0 | Some x \<Rightarrow> x);
                prefsEnd = (case end_hour prefs of None \<Rightarrow> 24 | Some x \<Rightarrow> x);
                mins = (case min_minutes prefs of None \<Rightarrow> 60 | Some x \<Rightarrow> x);
                hh = parseInt10 (case split_colon time24h of x # _ \<Rightarrow> x | [] \<Rightarrow> ''undefined'')
            in if num_lt hh (Some prefsStart) \<or> num_ge hh (Some prefsEnd)
               then scanRows todayIso url prefs courtName rows slots
               else (case row_bookNowCount row of
                       Inl e \<Rightarrow> Inl e
                     | Inr bookNowCount \<Rightarrow>
                         if bookNowCount = 0
                         then scanRows todayIso url prefs courtName rows slots
                         else scanRows todayIso url prefs courtName rows
                                (slots @ [\<lparr> date_iso = todayIso,
                                            time_24h = time24h,
                                            minutes = Some mins,
                                            location = (if courtName \<noteq> [] then courtName
                                                        else ''UBC Tennis Centre - court''),
                                            deep_link = Some url \<rparr>])))"

text \<open>\<open>scanSingleCourtPage\<close>, lines 179-264. The scheduler table is the first table whose
  first 500 characters match \<open>/8:00 AM|9:00 AM|10:00 PM|Bookable 24hrs in advance/i\<close>.\<close>

definition isGridTable :: "table_obs \<Rightarrow> bool" where
  "isGridTable t =
     (let snippet = take 500 (tbl_innerText t)
      in list_ex (\<lambda>p. test_ci p snippet)
           [''8:00 AM'', ''9:00 AM'', ''10:00 PM'', ''Bookable 24hrs in advance''])"

definition scanSingleCourtPage ::
  "string \<Rightarrow> facility_obs \<Rightarrow> Preferences \<Rightarrow> string \<Rightarrow> error + Slot list" where
  "scanSingleCourtPage todayIso page prefs courtName =
     bindE (fac_tables page) (\<lambda>tables.
       case find isGridTable tables of
         None \<Rightarrow> bindE (debugListClickable (fac_clickable page)) (\<lambda>u. Inr [])
       | Some gridTable \<Rightarrow>
           bindE (tbl_rows gridTable) (\<lambda>rows.
             scanRows todayIso (fac_url page) prefs courtName rows []))"

text \<open>
  One court of \<open>scanCourtsAndSlots\<close>, lines 313-360. \<open>crt_goto\<close> is
  \<open>new URL(href, BASE_URL)\<close> followed by \<open>page.goto\<close>. The first \<open>try\<close> block keeps the
  slots collected so far when anything in it throws; the result is the new list of
  slots and whether the loop goes on (it stops when the return to the list fails).
\<close>

record court_obs =
  crt_cardText :: "error + string"
  crt_href :: "error + string option"
  crt_click :: "error option"
  crt_goto :: "error option"
  crt_page :: facility_obs
  crt_back :: "error option"

definition scanCourt :: "string \<Rightarrow> Preferences \<Rightarrow> court_obs \<Rightarrow> Slot list \<Rightarrow> Slot list \<times> bool" where
  "scanCourt todayIso prefs c slots =
     (let courtName = inferCourtName (crt_cardText c);
          tried =
            bindE (crt_href c) (\<lambda>href.
              andThen (if href = None \<or> href = Some [] then crt_click c else crt_goto c)
                (scanSingleCourtPage todayIso (crt_page c) prefs courtName));
          slots' = (case tried of Inl err \<Rightarrow> slots | Inr courtSlots \<Rightarrow> slots @ courtSlots)
      in (slots', crt_back c = None))"

fun scanCourts :: "string \<Rightarrow> Preferences \<Rightarrow> court_obs list \<Rightarrow> Slot list \<Rightarrow> Slot list" where
  "scanCourts todayIso prefs [] slots = slots"
| "scanCourts todayIso prefs (c # cs) slots =
     (case scanCourt todayIso prefs c slots of
        (slots', True) \<Rightarrow> scanCourts todayIso prefs cs slots'
      | (slots', False) \<Rightarrow> slots')"

text \<open>\<open>scanCourtsAndSlots\<close>, lines 291-364.\<close>

definition scanCourtsAndSlots ::
  "string \<Rightarrow> (error + court_obs list) \<Rightarrow> (error + nat) \<Rightarrow> Preferences \<Rightarrow> error + Slot list" where
  "scanCourtsAndSlots todayIso chooseButtons clickable prefs =
     bindE chooseButtons (\<lambda>courts.
       let totalCourts = length courts
       in if totalCourts = 0
          then bindE (debugListClickable clickable) (\<lambda>u. Inr [])
          else Inr (scanCourts todayIso prefs (take (min totalCourts 10) courts) []))"

text \<open>The placeholder slot \<open>checkAvailability\<close> falls back to, lines 398-407. The source
  writes an en dash in the location, here a hyphen.\<close>

definition stubSlot :: "string \<Rightarrow> string \<Rightarrow> Preferences \<Rightarrow> Slot" where
  "stubSlot BASE_URL todayIso prefs =
     \<lparr> date_iso = todayIso,
       time_24h = ''19:00'',
       minutes = Some (case min_minutes prefs of None \<Rightarrow> 60 | Some m \<Rightarrow> m),
       location = ''UBC Tennis Centre - (stubbed)'',
       deep_link = Some BASE_URL \<rparr>"

record check_obs =
  chk_session :: session_obs
  chk_goto :: "error option"
  chk_login :: login_obs
  chk_courts :: "error + court_obs list"
  chk_clickable :: "error + nat"
  chk_today :: string

text \<open>\<open>checkAvailability\<close>, src/src/ubc.ts lines 371-411.\<close>

definition checkAvailability ::
  "string \<Rightarrow> string \<Rightarrow> string \<Rightarrow> check_obs \<Rightarrow> Preferences \<Rightarrow> (error + Slot list) \<times> browser" where
  "checkAvailability BASE_URL user pass w prefs =
     (case openSession (chk_session w) of
        Some (e, b) \<Rightarrow> (Inl e, b)
      | None \<Rightarrow> finallyClose (chk_session w)
        (andThen (chk_goto w)
        (bindE (fst (ensureLoggedIn BASE_URL user pass (chk_login w) 0)) (\<lambda>page.
           case scanCourtsAndSlots (chk_today w) (chk_courts w) (chk_clickable w) prefs of
             Inr realSlots \<Rightarrow>
               if length realSlots > 0 then Inr realSlots
               else Inr [stubSlot BASE_URL (chk_today w) prefs]
           | Inl scanErr \<Rightarrow> Inr [stubSlot BASE_URL (chk_today w) prefs]))))"

section \<open>The booking pipeline\<close>

text \<open>
  \<open>bookSlot\<close>, src/unnamed/part_003 lines 634-1154. The observations, in program order.
  A field that stands for several consecutive awaits with no decision between them
  (a click and the wait after it) holds the first rejection among them. Reads with a
  \<open>catch\<close> that only feed the log (the booking summary, the page title, the wait for
  the URL pattern) are left out.
\<close>

record attendee_obs =
  at_label :: "error + string"
  at_class :: "string option"
  at_hidden :: bool
  at_checkboxCount :: "error + nat"
  at_checked :: bool
  at_checkboxClick :: "error option"
  at_rowClick :: "error option"

record book_obs =
  bk_session :: session_obs
  bk_goto :: "error option"
  bk_login :: login_obs
  bk_urlAfterLogin :: string
  bk_gotoBack :: "error option"
  bk_facilityName :: "error + string"
  bk_spans :: "error + (error + string option) list"
  bk_clickSlot :: "error option"
  bk_reserveVisible :: bool
  bk_overlayHidden :: bool
  bk_overlayRemove :: "error option"
  bk_loadingHidden :: bool
  bk_loadingHide :: "error option"
  bk_setAttendees :: "error + bool"
  bk_wait1 :: "error option"
  bk_removeOverlay :: "error option"
  bk_reserveClick :: "error option"
  bk_wait2 :: "error option"
  bk_urlAfterReserve :: string
  bk_returnUrl :: "error + string option"
  bk_cwlVisible :: bool
  bk_cwlClick :: "error option"
  bk_usernameVisible :: bool
  bk_credentials :: "error option"
  bk_urlAfterPortal :: string
  bk_gotoReturn :: "error option"
  bk_urlStep2 :: string
  bk_retryClick :: "error option"
  bk_altVisible :: bool
  bk_altClick :: "error option"
  bk_finalUrl :: string
  bk_errorMsg :: string
  bk_attendees :: "error + attendee_obs list"
  bk_wait3 :: "error option"
  bk_wait4 :: "error option"
  bk_nextVisible :: "bool list"
  bk_dumpButtons :: "error option"
  bk_nextClick :: "error option"
  bk_cardVisible :: bool
  bk_cardClick :: "error option"
  bk_placeVisible :: bool
  bk_placeClick :: "error option"
  bk_pageText :: string
  bk_errorText :: string
  bk_confirmation :: "string option"

definition failure :: "string \<Rightarrow> BookingResult" where
  "failure msg = \<lparr> success = False, confirmation_number = None, message = msg, booked_slot = None \<rparr>"

text \<open>Step 1, lines 683-694: the first marker whose \<open>title\<close>, in lower case, contains the
  12-hour label in lower case. The result says whether \<open>targetSpan\<close> was set.\<close>

fun findSlot :: "string \<Rightarrow> (error + string option) list \<Rightarrow> error + bool" where
  "findSlot time12h [] = Inr False"
| "findSlot time12h (t # ts) =
     (case t of
        Inl e \<Rightarrow> Inl e
      | Inr a \<Rightarrow>
          if includes_js (toLowerCase (case a of None \<Rightarrow> [] | Some x \<Rightarrow> x)) (toLowerCase time12h)
          then Inr True
          else findSlot time12h ts)"

text \<open>The re-authentication block, lines 823-873. \<open>bk_returnUrl\<close> is
  \<open>new URL(newUrl).searchParams.get('returnUrl')\<close>; \<open>bk_gotoReturn\<close> is
  \<open>decodeURIComponent\<close> followed by \<open>page.goto\<close>.\<close>

definition reauth :: "book_obs \<Rightarrow> error + unit" where
  "reauth w =
     bindE (bk_returnUrl w) (\<lambda>returnUrl.
     andThen (if bk_cwlVisible w then bk_cwlClick w else None)
    (andThen (if bk_usernameVisible w then bk_credentials w else None)
    (andThen (if returnUrl \<noteq> None \<and> returnUrl \<noteq> Some [] \<and>
                 \<not> includes_js (bk_urlAfterPortal w) ''BookMe4EventParticipants''
              then bk_gotoReturn w else None)
       (Inr ()))))"

text \<open>The second attempt on the Reserve button, lines 876-915; \<open>Some r\<close> is an early
  \<open>return r\<close>.\<close>

definition retryReserve :: "book_obs \<Rightarrow> error + BookingResult option" where
  "retryReserve w =
     andThen (bk_retryClick w)
    (andThen (if bk_altVisible w then bk_altClick w else None)
    (if includes_js (bk_finalUrl w) ''BookMe4LandingPages/Facility''
     then (if bk_errorMsg w \<noteq> []
           then Inr (Some (failure (''Could not proceed with booking: '' @ bk_errorMsg w)))
           else Inr (Some (failure ''Reserve button click did not navigate to attendee selection page'')))
     else Inr None))"

text \<open>Attendee selection: the loop for the row marked "(You)", lines 941-982, and the
  fallback loop, lines 987-1005. Both return \<open>selectedAttendeeName\<close>.\<close>

definition rowDisabled :: "attendee_obs \<Rightarrow> bool" where
  "rowDisabled row = (case at_class row of None \<Rightarrow> False | Some c \<Rightarrow> includes_js c ''disabled'')"

fun selectYou :: "attendee_obs list \<Rightarrow> string \<Rightarrow> error + string" where
  "selectYou [] selectedAttendeeName = Inr selectedAttendeeName"
| "selectYou (row # rows) selectedAttendeeName =
     (let label = orElse (at_label row) []
      in if at_hidden row then selectYou rows selectedAttendeeName
         else if includes_js label ''(You)'' then
           (if rowDisabled row then selectYou rows label
            else (case at_checkboxCount row of
                    Inl e \<Rightarrow> Inl e
                  | Inr n \<Rightarrow>
                      if n > 0
                      then (if \<not> at_checked row
                            then andThen (at_checkboxClick row) (Inr label)
                            else Inr label)
                      else andThen (at_rowClick row) (Inr label)))
         else selectYou rows selectedAttendeeName)"

fun selectFirst :: "attendee_obs list \<Rightarrow> error + string" where
  "selectFirst [] = Inr []"
| "selectFirst (row # rows) =
     (if \<not> rowDisabled row \<and> \<not> at_hidden row
      then (case at_checkboxCount row of
              Inl e \<Rightarrow> Inl e
            | Inr n \<Rightarrow>
                if n > 0
                then andThen (if \<not> at_checked row then at_checkboxClick row else None)
                       (Inr (orElse (at_label row) ''Unknown''))
                else selectFirst rows)
      else selectFirst rows)"

text \<open>\<open>/confirmation|thank you|order.*complete|booking.*confirmed|receipt/i.test(pageText)\<close>.\<close>

definition hasConfirmation :: "string \<Rightarrow> bool" where
  "hasConfirmation pageText =
     (test_ci ''confirmation'' pageText \<or> test_ci ''thank you'' pageText \<or>
      test_gap_ci ''order'' ''complete'' pageText \<or>
      test_gap_ci ''booking'' ''confirmed'' pageText \<or> test_ci ''receipt'' pageText)"

text \<open>Steps 3 to 5, lines 917-1143.\<close>

definition bookSteps3to5 :: "book_obs \<Rightarrow> BookingRequest \<Rightarrow> string \<Rightarrow> error + BookingResult" where
  "bookSteps3to5 w request courtName =
     bindE (bk_attendees w) (\<lambda>attendeeRows.
     bindE (selectYou attendeeRows []) (\<lambda>you.
     bindE (if you = [] then selectFirst attendeeRows else Inr you) (\<lambda>selectedAttendeeName.
     andThen (bk_wait3 w)
     (if selectedAttendeeName = []
      then Inr (failure ''Could not select any attendee - none available or all disabled'')
      else andThen (bk_wait4 w)
       (if \<not> list_ex (\<lambda>v. v) (bk_nextVisible w)
        then andThen (bk_dumpButtons w)
               (Inr (failure ''Next button not found on attendee selection page''))
        else andThen (bk_nextClick w)
         (andThen (if bk_cardVisible w then bk_cardClick w else None)
         (if \<not> bk_placeVisible w
          then Inr (failure ''Place My Order button not found'')
          else andThen (bk_placeClick w)
           (if bk_errorText w \<noteq> [] \<and> \<not> hasConfirmation (bk_pageText w)
            then Inr (failure (''Booking failed: '' @ bk_errorText w))
            else Inr \<lparr> success = True,
                       confirmation_number = bk_confirmation w,
                       message = ''Booking completed successfully'',
                       booked_slot = Some \<lparr> bs_time = req_time_24h request,
                                            bs_duration = duration_hours request * 60,
                                            bs_location = trim courtName \<rparr> \<rparr>))))))))"

text \<open>Step 2 from the click on the marker on, lines 703-915.\<close>

definition bookStep2 :: "book_obs \<Rightarrow> BookingRequest \<Rightarrow> string \<Rightarrow> error + BookingResult" where
  "bookStep2 w request courtName =
     andThen (bk_clickSlot w)
     (if \<not> bk_reserveVisible w
      then Inr (failure ''Reserve button not found after clicking Book Now'')
      else andThen (if bk_overlayHidden w then None else bk_overlayRemove w)
          (andThen (if bk_loadingHidden w then None else bk_loadingHide w)
          (bindE (bk_setAttendees w) (\<lambda>setAttendeesResult.
           andThen (bk_wait1 w)
          (andThen (bk_removeOverlay w)
          (andThen (bk_reserveClick w)
          (andThen (bk_wait2 w)
          (bindE (if includes_js (bk_urlAfterReserve w) ''portal.recreation.ubc.ca'' \<or>
                     includes_js (bk_urlAfterReserve w) ''Login''
                  then reauth w else Inr ()) (\<lambda>u.
           bindE (if includes_js (bk_urlStep2 w) ''BookMe4LandingPages/Facility''
                  then retryReserve w else Inr None) (\<lambda>early.
             case early of
               Some r \<Rightarrow> Inr r
             | None \<Rightarrow> bookSteps3to5 w request courtName))))))))))"

text \<open>The body of the \<open>try\<close> block, lines 642-1143.\<close>

definition bookPipeline ::
  "string \<Rightarrow> string \<Rightarrow> string \<Rightarrow> book_obs \<Rightarrow> BookingRequest \<Rightarrow> error + BookingResult" where
  "bookPipeline BASE_URL user pass w request =
     andThen (bk_goto w)
    (bindE (fst (ensureLoggedIn_r2 BASE_URL user pass (bk_login w) 0)) (\<lambda>page.
     andThen (if \<not> includes_js (bk_urlAfterLogin w) ''BookMe4LandingPages/Facility''
              then bk_gotoBack w else None)
    (let courtName = orElse (bk_facilityName w) ''Unknown Court''
     in bindE (time12h_of (req_time_24h request)) (\<lambda>time12h.
        bindE (bk_spans w) (\<lambda>spans.
        bindE (findSlot time12h spans) (\<lambda>targetSpan.
          if \<not> targetSpan
          then Inr (failure (''Could not find available slot at '' @ req_time_24h request @
                             '' ('' @ time12h @ '')''))
          else bookStep2 w request courtName))))))"

text \<open>\<open>bookSlot\<close>: the session, the \<open>try\<close> block, the \<open>catch\<close> that turns a thrown error
  into a result (lines 1145-1150) and the \<open>finally\<close> that closes the browser.\<close>

definition bookSlot ::
  "string \<Rightarrow> string \<Rightarrow> string \<Rightarrow> book_obs \<Rightarrow> BookingRequest \<Rightarrow> (error + BookingResult) \<times> browser" where
  "bookSlot BASE_URL user pass w request =
     (case openSession (bk_session w) of
        Some (e, b) \<Rightarrow> (Inl e, b)
      | None \<Rightarrow> finallyClose (bk_session w)
          (case bookPipeline BASE_URL user pass w request of
             Inr result \<Rightarrow> Inr result
           | Inl err \<Rightarrow>
               Inr (failure (''Booking failed: '' @
                      (if err_message err \<noteq> [] then err_message err else ''Unknown error'')))))"

section \<open>Notions of the specification and example inputs\<close>

text \<open>
  A zero-padded 24-hour time \<open>HH:MM\<close>, a 12-hour label \<open>h:mm AM\<close> or \<open>h:mm PM\<close>, and the
  hour of the day a 12-hour reading denotes.
\<close>

definition hhmm :: "nat \<Rightarrow> nat \<Rightarrow> string" where
  "hhmm H M = padStart2 (show_nat H) @ '':'' @ padStart2 (show_nat M)"

definition label12 :: "nat \<Rightarrow> nat \<Rightarrow> bool \<Rightarrow> string" where
  "label12 h m pm = show_nat h @ '':'' @ padStart2 (show_nat m) @ '' '' @ (if pm then ''PM'' else ''AM'')"

definition hour24 :: "nat \<Rightarrow> bool \<Rightarrow> nat" where
  "hour24 h pm = (if pm then (if h = 12 then 12 else h + 12) else (if h = 12 then 0 else h))"







definition courtSlots :: "string \<Rightarrow> Preferences \<Rightarrow> court_obs \<Rightarrow> Slot list" where
  "courtSlots todayIso prefs c = fst (scanCourt todayIso prefs c [])"



text \<open>The scan of \<open>checkAvailability\<close> (src/src/ubc.ts) collects no slot or throws.\<close>

definition scanZeroOrThrows :: "check_obs \<Rightarrow> Preferences \<Rightarrow> bool" where
  "scanZeroOrThrows w prefs =
     (case scanCourtsAndSlots (chk_today w) (chk_courts w) (chk_clickable w) prefs of
        Inl e \<Rightarrow> True
      | Inr slots \<Rightarrow> slots = [])"

text \<open>Example inputs: a session in which every call resolves, a page without a
  "Login" control (its \<open>isVisible()\<close> rejects, which the source reads as not visible), a
  page with one, and preferences with no field set.\<close>

definition session_ok :: session_obs where
  "session_ok = \<lparr> ses_launch = None, ses_newContext = None, ses_newPage = None, ses_close = None \<rparr>"

definition login_none :: login_obs where
  "login_none =
     \<lparr> lo_loginVisible = Inl (Error ''Target closed''), lo_popup1 = None, lo_loginClick = None,
       lo_load1 = None, lo_cwlVisible = [], lo_popup2 = None, lo_cwlClick = None,
       lo_load2 = None, lo_userWait = None, lo_passWait = None, lo_userFill = None,
       lo_passFill = None, lo_submitClick = None, lo_idle = None, lo_urlAfter = [],
       lo_gotoBase = None \<rparr>"

definition login_shown :: login_obs where
  "login_shown =
     \<lparr> lo_loginVisible = Inr True, lo_popup1 = Some 1, lo_loginClick = None,
       lo_load1 = None, lo_cwlVisible = [Inr False, Inr True], lo_popup2 = None,
       lo_cwlClick = None, lo_load2 = None, lo_userWait = None, lo_passWait = None,
       lo_userFill = None, lo_passFill = None, lo_submitClick = None, lo_idle = None,
       lo_urlAfter = ''https://cas.example/login'', lo_gotoBase = None \<rparr>"

definition noPrefs :: Preferences where
  "noPrefs =
     \<lparr> days_ahead = None, start_hour = None, end_hour = None, min_minutes = None,
       indoor_only = None, locations = None, dates = None \<rparr>"

text \<open>A list page without any "Choose" control, and one whose \<open>count()\<close> rejects.\<close>

definition world_no_courts :: check_obs where
  "world_no_courts =
     \<lparr> chk_session = session_ok, chk_goto = None, chk_login = login_none,
       chk_courts = Inr [], chk_clickable = Inr 3, chk_today = ''2025-11-03'' \<rparr>"

definition world_scan_throws :: check_obs where
  "world_scan_throws =
     \<lparr> chk_session = session_ok, chk_goto = None, chk_login = login_none,
       chk_courts = Inl (Error ''Execution context was destroyed''), chk_clickable = Inr 3,
       chk_today = ''2025-11-03'' \<rparr>"

text \<open>A bookable marker of the revision that parses marker titles, with a given
  \<open>title\<close>.\<close>

definition marker :: "string \<Rightarrow> span_obs" where
  "marker title =
     \<lparr> sp_visible = True, sp_innerText = ''Book Now'', sp_available = Inr True,
       sp_title = Inr (Some title), sp_dataDate = Inr [] \<rparr>"






text \<open>Preferences for the evening: start hours from 18 up to, not including, 22.\<close>

definition prefs_evening :: Preferences where
  "prefs_evening =
     \<lparr> days_ahead = None, start_hour = Some 18, end_hour = Some 22, min_minutes = None,
       indoor_only = None, locations = None, dates = None \<rparr>"

text \<open>A booking in which every call resolves: the facility page shows markers for 3 PM
  and 7 PM, one attendee row marked "(You)", a stored card and a confirmation page.
  Variants: the browser cannot be launched, the context cannot be created, the click
  on the Reserve button times out. A request for a start time, and a scan whose context
  cannot be created.\<close>

definition attendee_you :: attendee_obs where
  "attendee_you =
     \<lparr> at_label = Inr ''Sam Doe (You)'', at_class = Some ''bm-selectable-row'',
       at_hidden = False, at_checkboxCount = Inr 1, at_checked = False,
       at_checkboxClick = None, at_rowClick = None \<rparr>"

definition book_quiet :: book_obs where
  "book_quiet =
     \<lparr> bk_session = session_ok, bk_goto = None, bk_login = login_none,
       bk_urlAfterLogin = ''https://p.example/BookMe4LandingPages/Facility?id=1'',
       bk_gotoBack = None, bk_facilityName = Inr ''Court 01'',
       bk_spans = Inr [Inr (Some ''3:00 PM-4:00 PM''), Inr (Some ''7:00 PM-8:00 PM'')],
       bk_clickSlot = None, bk_reserveVisible = True, bk_overlayHidden = True,
       bk_overlayRemove = None, bk_loadingHidden = True, bk_loadingHide = None,
       bk_setAttendees = Inr True, bk_wait1 = None, bk_removeOverlay = None,
       bk_reserveClick = None, bk_wait2 = None,
       bk_urlAfterReserve = ''https://p.example/BookMe4EventParticipants?id=1'',
       bk_returnUrl = Inr None, bk_cwlVisible = False, bk_cwlClick = None,
       bk_usernameVisible = False, bk_credentials = None, bk_urlAfterPortal = [],
       bk_gotoReturn = None,
       bk_urlStep2 = ''https://p.example/BookMe4EventParticipants?id=1'',
       bk_retryClick = None, bk_altVisible = False, bk_altClick = None, bk_finalUrl = [],
       bk_errorMsg = [], bk_attendees = Inr [attendee_you], bk_wait3 = None, bk_wait4 = None,
       bk_nextVisible = [False, True], bk_dumpButtons = None, bk_nextClick = None,
       bk_cardVisible = True, bk_cardClick = None, bk_placeVisible = True,
       bk_placeClick = None, bk_pageText = ''Thank you for your order'', bk_errorText = [],
       bk_confirmation = Some ''A-1001'' \<rparr>"


definition book_context_fails :: book_obs where
  "book_context_fails =
     book_quiet \<lparr> bk_session :=
       session_ok \<lparr> ses_newContext := Some (Error ''browser.newContext: Browser has been closed'') \<rparr> \<rparr>"

definition book_click_throws :: book_obs where
  "book_click_throws =
     book_quiet \<lparr> bk_reserveClick := Some (Error ''locator.click: Timeout 30000ms exceeded'') \<rparr>"



definition world_context_fails :: check_obs where
  "world_context_fails =
     world_no_courts \<lparr> chk_session :=
       session_ok \<lparr> ses_newContext := Some (Error ''browser.newContext: Browser has been closed'') \<rparr> \<rparr>"

definition request_at :: "string \<Rightarrow> BookingRequest" where
  "request_at t =
     \<lparr> facility_url = ''https://p.example/BookMe4LandingPages/Facility?id=1'',
       req_time_24h = t, duration_hours = 1, num_people = 2 \<rparr>"

section \<open>Facts about the runtime functions\<close>

lemma andThen_Inr: "andThen r k = Inr v \<longleftrightarrow> r = None \<and> k = Inr v"
  by (simp add: andThen_def split: option.splits)

lemma bindE_Inr: "bindE r k = Inr v \<longleftrightarrow> (\<exists>x. r = Inr x \<and> k x = Inr v)"
  by (cases r) (simp_all add: bindE_def)

lemma finallyClose_Inr: "fst (finallyClose s r) = Inr v \<longleftrightarrow> ses_close s = None \<and> r = Inr v"
  by (simp add: finallyClose_def split: option.splits)

lemma digit_cases: "n < 10 \<Longrightarrow> n \<in> {0, 1, 2, 3, 4, 5, 6, 7, 8, 9 :: nat}"
  by (simp add: insert_iff) arith

lemma digit_char_props:
  assumes "n < 10"
  shows "is_digit (digit_char n)" and "digit_val (digit_char n) = n"
    and "\<not> is_space (digit_char n)" and "digit_char n \<noteq> CHR '':''"
    and "digit_char n \<noteq> CHR ''-''" and "digit_char n \<noteq> CHR ''+''"
  using digit_cases [OF assms]
  by (auto simp: digit_char_def is_digit_def digit_val_def is_space_def)

lemma is_digit_cases:
  "is_digit c \<Longrightarrow> \<exists>n<10. c = digit_char n"
  unfolding is_digit_def
proof -
  assume "c \<in> set ''0123456789''"
  then consider "c = CHR ''0''" | "c = CHR ''1''" | "c = CHR ''2''" | "c = CHR ''3''" | "c = CHR ''4''"
    | "c = CHR ''5''" | "c = CHR ''6''" | "c = CHR ''7''" | "c = CHR ''8''" | "c = CHR ''9''"
    by auto
  then show ?thesis
  proof cases
    case 1 then show ?thesis by (intro exI [of _ 0]) (simp add: digit_char_def) next
    case 2 then show ?thesis by (intro exI [of _ 1]) (simp add: digit_char_def) next
    case 3 then show ?thesis by (intro exI [of _ 2]) (simp add: digit_char_def) next
    case 4 then show ?thesis by (intro exI [of _ 3]) (simp add: digit_char_def) next
    case 5 then show ?thesis by (intro exI [of _ 4]) (simp add: digit_char_def) next
    case 6 then show ?thesis by (intro exI [of _ 5]) (simp add: digit_char_def) next
    case 7 then show ?thesis by (intro exI [of _ 6]) (simp add: digit_char_def) next
    case 8 then show ?thesis by (intro exI [of _ 7]) (simp add: digit_char_def) next
    case 9 then show ?thesis by (intro exI [of _ 8]) (simp add: digit_char_def) next
    case 10 then show ?thesis by (intro exI [of _ 9]) (simp add: digit_char_def)
  qed
qed

lemma is_digit_props:
  assumes "is_digit c"
  shows "\<not> is_space c" and "c \<noteq> CHR '':''" and "c \<noteq> CHR ''-''" and "c \<noteq> CHR ''+''" and "digit_val c < 10"
    and "digit_char (digit_val c) = c"
  using is_digit_cases [OF assms] digit_char_props by auto

lemma show_nat_digits: "list_all is_digit (show_nat n)"
proof (induction n rule: show_nat.induct)
  case (1 n)
  show ?case
  proof (cases "n < 10")
    case True
    then show ?thesis by (subst show_nat.simps) (simp add: digit_char_props)
  next
    case False
    then show ?thesis using 1 by (subst show_nat.simps) (simp add: digit_char_props)
  qed
qed

lemma show_nat_nonempty: "show_nat n \<noteq> []"
  by (subst show_nat.simps) simp

lemma dec_snoc: "dec (ds @ [c]) = 10 * dec ds + digit_val c"
  by (simp add: dec_def)

lemma dec_show_nat: "dec (show_nat n) = n"
proof (induction n rule: show_nat.induct)
  case (1 n)
  show ?case
  proof (cases "n < 10")
    case True
    then show ?thesis by (subst show_nat.simps) (simp add: dec_def digit_char_props)
  next
    case False
    then show ?thesis using 1 by (subst show_nat.simps) (simp add: dec_snoc digit_char_props)
  qed
qed

lemma dec_zero_prefix: "dec (replicate k (CHR ''0'') @ ds) = dec ds"
proof -
  have "foldl (\<lambda>n c. 10 * n + digit_val c) 0 (replicate k (CHR ''0'')) = 0"
    by (induction k) (simp_all add: digit_val_def)
  then show ?thesis by (simp add: dec_def)
qed

lemma is_digit_zero: "is_digit (CHR ''0'')"
  by (simp add: is_digit_def)

lemma padStart2_digits: "list_all is_digit s \<Longrightarrow> list_all is_digit (padStart2 s)"
  by (auto simp: padStart2_def list_all_iff is_digit_zero)

lemma dec_padStart2: "dec (padStart2 s) = dec s"
  by (simp add: padStart2_def dec_zero_prefix)

lemma padStart2_nonempty: "s \<noteq> [] \<Longrightarrow> padStart2 s \<noteq> []"
  by (simp add: padStart2_def)

lemma trim_digits: "list_all is_digit s \<Longrightarrow> trim s = s"
proof -
  assume a: "list_all is_digit s"
  have 1: "dropWhile is_space s = s"
    using a by (cases s) (auto simp: is_digit_props)
  have "list_all is_digit (rev s)" using a by (simp add: list_all_iff)
  then have 2: "dropWhile is_space (rev s) = rev s"
    by (cases "rev s") (auto simp: is_digit_props)
  show ?thesis by (simp add: trim_def 1 2)
qed

lemma Number_js_digits: "list_all is_digit s \<Longrightarrow> s \<noteq> [] \<Longrightarrow> Number_js s = Some (int (dec s))"
  by (simp add: Number_js_def trim_digits)

lemma parseInt10_digits: "list_all is_digit s \<Longrightarrow> s \<noteq> [] \<Longrightarrow> parseInt10 s = Some (int (dec s))"
proof -
  assume a: "list_all is_digit s" and ne: "s \<noteq> []"
  have 1: "dropWhile is_space s = s"
    using a by (cases s) (auto simp: is_digit_props)
  have 2: "takeWhile is_digit s = s" using a by (simp add: list_all_iff)
  obtain c r where s: "s = c # r" using ne by (cases s) auto
  then have c: "is_digit c" using a by simp
  have "parseInt10 s = (let ds = takeWhile is_digit s in if ds = [] then None else Some (int (dec ds)))"
    using c by (simp add: parseInt10_def 1 s is_digit_props Let_def)
  then show ?thesis
    using ne by (simp add: 2)
qed

lemma split_on_no_sep: "list_all (\<lambda>c. \<not> sep c) s \<Longrightarrow> split_on sep s = [s]"
  by (induction s) auto

lemma split_on_append:
  "list_all (\<lambda>c. \<not> sep c) a \<Longrightarrow> sep c \<Longrightarrow> split_on sep (a @ c # b) = a # split_on sep b"
  by (induction a) auto

lemma split_colon_hhmm:
  "list_all is_digit a \<Longrightarrow> list_all is_digit b \<Longrightarrow> split_colon (a @ CHR '':'' # b) = [a, b]"
proof -
  assume a: "list_all is_digit a" and b: "list_all is_digit b"
  have na: "list_all (\<lambda>c. \<not> c = CHR '':'') a" using a by (auto simp: list_all_iff is_digit_props)
  have nb: "list_all (\<lambda>c. \<not> c = CHR '':'') b" using b by (auto simp: list_all_iff is_digit_props)
  show ?thesis
    unfolding split_colon_def
    by (simp add: split_on_append [OF na] split_on_no_sep [OF nb])
qed

lemma Number_js_pad: "Number_js (padStart2 (show_nat n)) = Some (int n)"
  using Number_js_digits [OF padStart2_digits [OF show_nat_digits], of n]
  by (simp add: padStart2_nonempty show_nat_nonempty dec_padStart2 dec_show_nat)

lemma parseInt10_pad: "parseInt10 (padStart2 (show_nat n)) = Some (int n)"
  using parseInt10_digits [OF padStart2_digits [OF show_nat_digits], of n]
  by (simp add: padStart2_nonempty show_nat_nonempty dec_padStart2 dec_show_nat)

lemma parseInt10_show: "parseInt10 (show_nat n) = Some (int n)"
  using parseInt10_digits [OF show_nat_digits, of n]
  by (simp add: show_nat_nonempty dec_show_nat)

lemma split_colon_pad:
  "list_all is_digit b \<Longrightarrow> split_colon (padStart2 (show_nat n) @ CHR '':'' # b) = [padStart2 (show_nat n), b]"
  by (rule split_colon_hhmm [OF padStart2_digits [OF show_nat_digits]])

lemma num_toString_nat: "num_toString (Some (int n)) = show_nat n"
  by (simp add: num_toString_def)


lemma time12h_of_hhmm:
  "time12h_of (hhmm H M) =
     Inr (label12 (if H = 0 then 12 else if H > 12 then H - 12 else H) M (H \<ge> 12))"
proof -
  have sub: "H > 12 \<Longrightarrow> num_toString (Some (int H - 12)) = show_nat (H - 12)"
    by (simp add: num_toString_def nat_diff_distrib')
  have twelve: "num_toString (Some 12) = show_nat 12"
    using num_toString_nat [of 12] by simp
  show ?thesis
    by (simp add: time12h_of_def hhmm_def split_colon_pad padStart2_digits show_nat_digits
      Number_js_pad num_gt_def num_ge_def num_sub_def num_toString_nat label12_def sub twelve)
qed

lemma show_nat_lt10: "n < 10 \<Longrightarrow> show_nat n = [digit_char n]"
  by (subst show_nat.simps) simp

lemma show_nat_lt100: "10 \<le> n \<Longrightarrow> n < 100 \<Longrightarrow> show_nat n = [digit_char (n div 10), digit_char (n mod 10)]"
  by (subst show_nat.simps) (simp add: show_nat_lt10)

lemma pad_lt100: "n < 100 \<Longrightarrow> padStart2 (show_nat n) = [digit_char (n div 10), digit_char (n mod 10)]"
  by (cases "n < 10") (simp_all add: show_nat_lt10 show_nat_lt100 padStart2_def digit_char_def)

lemma toUpperCase_ampm:
  "toUpperCase ''AM'' = ''AM''" "toUpperCase ''PM'' = ''PM''"
  "toUpperCase ''am'' = ''AM''" "toUpperCase ''pm'' = ''PM''"
  by code_simp+

lemma not_space_M: "\<not> is_space (CHR ''M'')" "\<not> is_space (CHR ''A'')" "\<not> is_space (CHR ''P'')" "is_space (CHR '' '')"
  by (simp_all add: is_space_def)

lemma match_label12:
  assumes "h < 100" "m < 100"
  shows "match_time12 True (label12 h m pm) =
           Some (show_nat h, padStart2 (show_nat m), '' '', (if pm then ''PM'' else ''AM''), [])"
proof (cases "h < 10")
  case True
  then show ?thesis using assms
    by (simp add: label12_def show_nat_lt10 pad_lt100 match_time12_def digit_char_props not_space_M is_ampm_def)
next
  case False
  then show ?thesis using assms
    by (simp add: label12_def show_nat_lt100 pad_lt100 match_time12_def digit_char_props not_space_M is_ampm_def)
qed

lemma trim_label12:
  assumes "h < 100" "m < 100"
  shows "trim (label12 h m pm) = label12 h m pm"
proof (cases "h < 10")
  case True
  then show ?thesis using assms
    by (simp add: label12_def show_nat_lt10 pad_lt100 trim_def digit_char_props not_space_M)
next
  case False
  then show ?thesis using assms
    by (simp add: label12_def show_nat_lt100 pad_lt100 trim_def digit_char_props not_space_M)
qed

lemma label12_nonempty: "label12 h m pm \<noteq> []"
  by (simp add: label12_def show_nat_nonempty)

lemma num_toString_consts:
  "num_toString (Some 0) = show_nat 0" "num_toString (Some (int h + 12)) = show_nat (h + 12)"
  using num_toString_nat [of 0] num_toString_nat [of "h + 12"] by simp_all

lemma hour_adjust:
  assumes "1 \<le> h" "h \<le> 12"
  shows "num_toString
           (if Some (int h) = Some 12 \<and> \<not> pm then Some 0
            else if Some (int h) \<noteq> Some 12 \<and> pm then num_add (Some (int h)) (Some 12)
            else Some (int h)) = show_nat (hour24 h pm)"
proof (cases "h = 12")
  case True
  then show ?thesis
    by (cases pm) (simp_all add: hour24_def num_toString_consts num_toString_nat [of 12, simplified])
next
  case False
  then have "int h \<noteq> 12" by simp
  then show ?thesis using False
    by (cases pm) (simp_all add: hour24_def num_add_def num_toString_consts num_toString_nat)
qed

lemma hour_adjust2:
  assumes "1 \<le> h" "h \<le> 12"
  shows "num_toString
           (let hour1 = (if (if pm then ''PM'' else ''AM'') = ''PM'' \<and> Some (int h) \<noteq> Some 12
                         then num_add (Some (int h)) (Some 12) else Some (int h))
            in if (if pm then ''PM'' else ''AM'') = ''AM'' \<and> hour1 = Some 12 then Some 0 else hour1)
         = show_nat (hour24 h pm)"
proof (cases "h = 12")
  case True
  then show ?thesis
    by (cases pm) (simp_all add: hour24_def num_toString_consts num_toString_nat [of 12, simplified])
next
  case False
  then have "int h \<noteq> 12" by simp
  then show ?thesis using False
    by (cases pm) (simp_all add: hour24_def num_add_def num_toString_consts num_toString_nat)
qed

lemma to24h_label12:
  assumes "1 \<le> h" "h \<le> 12" "m < 100"
  shows "to24h (label12 h m pm) = Some (hhmm (hour24 h pm) m)"
proof -
  have h100: "h < 100" using assms by simp
  have up: "toUpperCase (if pm then ''PM'' else ''AM'') = (if pm then ''PM'' else ''AM'')"
    by (simp add: toUpperCase_ampm)
  have pm: "((if pm then ''PM'' else ''AM'') = ''PM'') = pm" by simp
  show ?thesis
    unfolding to24h_def
    by (simp only: trim_label12 [OF h100 assms(3)] match_label12 [OF h100 assms(3)]
          option.case prod.case parseInt10_show up pm Let_def
          hour_adjust [OF assms(1,2)] hhmm_def) simp
qed

lemma parseTimeFromText_label12:
  assumes "1 \<le> h" "h \<le> 12" "m < 100"
  shows "parseTimeFromText (label12 h m pm) = Some (hhmm (hour24 h pm) m)"
proof -
  have h100: "h < 100" using assms by simp
  obtain c cs where l: "label12 h m pm = c # cs"
    using label12_nonempty [of h m pm] by (cases "label12 h m pm") auto
  have f: "find_time12 True (label12 h m pm) =
           Some (show_nat h, padStart2 (show_nat m), '' '', (if pm then ''PM'' else ''AM''), [])"
    using match_label12 [OF h100 assms(3), of pm] unfolding l by simp
  have up: "toUpperCase (if pm then ''PM'' else ''AM'') = (if pm then ''PM'' else ''AM'')"
    by (simp add: toUpperCase_ampm)
  have "parseTimeFromText (label12 h m pm) =
        Some (padStart2 (num_toString
           (let hour1 = (if (if pm then ''PM'' else ''AM'') = ''PM'' \<and> Some (int h) \<noteq> Some 12
                         then num_add (Some (int h)) (Some 12) else Some (int h))
            in if (if pm then ''PM'' else ''AM'') = ''AM'' \<and> hour1 = Some 12 then Some 0 else hour1))
          @ '':'' @ padStart2 (show_nat m))"
    unfolding parseTimeFromText_def
    by (simp only: trim_label12 [OF h100 assms(3)] f option.case prod.case parseInt10_show up
          Let_def label12_nonempty if_False)
  then show ?thesis
    by (simp only: hour_adjust2 [OF assms(1,2)] hhmm_def)
qed

lemma no_courts_zero: "chk_courts w = Inr [] \<Longrightarrow> scanZeroOrThrows w prefs"
  by (cases "chk_clickable w")
     (simp_all add: scanZeroOrThrows_def scanCourtsAndSlots_def bindE_def debugListClickable_def)

section \<open>The claims\<close>

text \<open>
  C8. The login flow is idempotent on an authenticated session. When the page shows no
  visible "Login" control (\<open>isVisible()\<close> resolves to false or rejects),
  \<open>ensureLoggedIn\<close> returns the page it was given and performs no interaction at all:
  no click, no fill, no navigation, no wait. Calling it again on the page it returned,
  the control still not visible, again performs nothing.
\<close>

theorem ensureLoggedIn_idempotent:
  assumes "\<not> orElse (lo_loginVisible w1) False"
      and "\<not> orElse (lo_loginVisible w2) False"
  shows "ensureLoggedIn BASE_URL user pass w1 page = (Inr page, []) \<and>
         (case ensureLoggedIn BASE_URL user pass w1 page of
            (Inr page', acts1) \<Rightarrow> ensureLoggedIn BASE_URL user pass w2 page' = (Inr page, [])
          | (Inl e, acts1) \<Rightarrow> False)"
  using assms by (simp add: ensureLoggedIn_def ret_def)

theorem ensureLoggedIn_idempotent_witness:
  "ensureLoggedIn ''https://p.example/List?x=1'' ''u'' ''p'' login_none 7 = (Inr 7, []) \<and>
   snd (ensureLoggedIn ''https://p.example/List?x=1'' ''u'' ''p'' login_shown 7) \<noteq> []"
proof -
  have h: "\<not> orElse (lo_loginVisible login_none) False"
    by (simp add: login_none_def orElse_def)
  have "snd (ensureLoggedIn ''https://p.example/List?x=1'' ''u'' ''p'' login_shown 7) \<noteq> []"
    by (simp add: ensureLoggedIn_def login_shown_def orElse_def act_def)
  with ensureLoggedIn_idempotent [OF h h, of "''https://p.example/List?x=1''" "''u''" "''p''" 7]
  show ?thesis by simp
qed

text \<open>
  C1. \<open>checkAvailability\<close> (src/src/ubc.ts) never returns an empty list. Whenever it
  returns, the list is not empty, and if the scan collected no slot or threw, the list
  is exactly the placeholder slot, dated with the current date. A list page without
  any "Choose" control is such a scan. It does return whenever the session is set up,
  the first navigation and the login flow succeed and the browser closes: nothing the
  scan does can make it throw.
\<close>

theorem checkAvailability_placeholder:
  "(\<forall>slots. fst (checkAvailability BASE_URL user pass w prefs) = Inr slots \<longrightarrow>
      slots \<noteq> [] \<and>
      (scanZeroOrThrows w prefs \<longrightarrow>
         slots = [stubSlot BASE_URL (chk_today w) prefs] \<and> date_iso (hd slots) = chk_today w)) \<and>
   (chk_courts w = Inr [] \<longrightarrow> scanZeroOrThrows w prefs) \<and>
   (openSession (chk_session w) = None \<and> chk_goto w = None \<and>
    (\<exists>pg. fst (ensureLoggedIn BASE_URL user pass (chk_login w) 0) = Inr pg) \<and>
    ses_close (chk_session w) = None \<longrightarrow>
      (\<exists>slots. fst (checkAvailability BASE_URL user pass w prefs) = Inr slots))"
proof (intro conjI allI impI)
  fix slots
  assume r: "fst (checkAvailability BASE_URL user pass w prefs) = Inr slots"
  then have body:
    "(case scanCourtsAndSlots (chk_today w) (chk_courts w) (chk_clickable w) prefs of
        Inr realSlots \<Rightarrow>
          if length realSlots > 0 then Inr realSlots
          else Inr [stubSlot BASE_URL (chk_today w) prefs]
      | Inl scanErr \<Rightarrow> Inr [stubSlot BASE_URL (chk_today w) prefs]) = (Inr slots :: error + Slot list)"
    by (auto simp: checkAvailability_def finallyClose_Inr andThen_Inr bindE_Inr
        split: option.splits prod.splits)
  show "slots \<noteq> []"
    using body by (auto split: sum.splits if_splits)
  {
    assume "scanZeroOrThrows w prefs"
    then show "slots = [stubSlot BASE_URL (chk_today w) prefs]"
      using body by (auto simp: scanZeroOrThrows_def split: sum.splits if_splits)
    then show "date_iso (hd slots) = chk_today w"
      by (simp add: stubSlot_def)
  }
next
  assume "chk_courts w = Inr []"
  then show "scanZeroOrThrows w prefs" by (rule no_courts_zero)
next
  assume a: "openSession (chk_session w) = None \<and> chk_goto w = None \<and>
    (\<exists>pg. fst (ensureLoggedIn BASE_URL user pass (chk_login w) 0) = Inr pg) \<and>
    ses_close (chk_session w) = None"
  then obtain pg where pg: "fst (ensureLoggedIn BASE_URL user pass (chk_login w) 0) = Inr pg"
    by blast
  show "\<exists>slots. fst (checkAvailability BASE_URL user pass w prefs) = Inr slots"
    using a pg
    by (cases "scanCourtsAndSlots (chk_today w) (chk_courts w) (chk_clickable w) prefs")
       (simp_all add: checkAvailability_def finallyClose_def andThen_def bindE_def)
qed

theorem checkAvailability_placeholder_witness:
  "fst (checkAvailability ''https://p.example/List'' ''u'' ''p'' world_no_courts noPrefs) =
     Inr [\<lparr> date_iso = ''2025-11-03'', time_24h = ''19:00'', minutes = Some 60,
            location = ''UBC Tennis Centre - (stubbed)'', deep_link = Some ''https://p.example/List'' \<rparr>] \<and>
   fst (checkAvailability ''https://p.example/List'' ''u'' ''p'' world_scan_throws noPrefs) =
     Inr [\<lparr> date_iso = ''2025-11-03'', time_24h = ''19:00'', minutes = Some 60,
            location = ''UBC Tennis Centre - (stubbed)'', deep_link = Some ''https://p.example/List'' \<rparr>]"
proof -
  let ?B = "''https://p.example/List''"
  have login: "fst (ensureLoggedIn ?B ''u'' ''p'' login_none 0) = Inr 0"
    by (simp add: ensureLoggedIn_def login_none_def orElse_def ret_def)
  have pre1: "openSession (chk_session world_no_courts) = None \<and> chk_goto world_no_courts = None \<and>
    (\<exists>pg. fst (ensureLoggedIn ?B ''u'' ''p'' (chk_login world_no_courts) 0) = Inr pg) \<and>
    ses_close (chk_session world_no_courts) = None"
    using login by (simp add: world_no_courts_def openSession_def session_ok_def)
  have pre2: "openSession (chk_session world_scan_throws) = None \<and> chk_goto world_scan_throws = None \<and>
    (\<exists>pg. fst (ensureLoggedIn ?B ''u'' ''p'' (chk_login world_scan_throws) 0) = Inr pg) \<and>
    ses_close (chk_session world_scan_throws) = None"
    using login by (simp add: world_scan_throws_def openSession_def session_ok_def)
  have z1: "chk_courts world_no_courts = Inr []" by (simp add: world_no_courts_def)
  have z2: "scanZeroOrThrows world_scan_throws noPrefs"
    by (simp add: scanZeroOrThrows_def world_scan_throws_def scanCourtsAndSlots_def bindE_def)
  note t1 = checkAvailability_placeholder [of ?B "''u''" "''p''" world_no_courts noPrefs]
  note t2 = checkAvailability_placeholder [of ?B "''u''" "''p''" world_scan_throws noPrefs]
  from t1 pre1 z1 have "fst (checkAvailability ?B ''u'' ''p'' world_no_courts noPrefs) =
      Inr [stubSlot ?B (chk_today world_no_courts) noPrefs]" by blast
  moreover from t2 pre2 z2 have "fst (checkAvailability ?B ''u'' ''p'' world_scan_throws noPrefs) =
      Inr [stubSlot ?B (chk_today world_scan_throws) noPrefs]" by blast
  ultimately show ?thesis
    by (simp add: stubSlot_def world_no_courts_def world_scan_throws_def noPrefs_def)
qed

text \<open>
  C4. For every 12-hour label \<open>h:mm AM\<close> or \<open>h:mm PM\<close> with \<open>h\<close> from 1 to 12, both
  conversions to 24-hour form (\<open>to24h\<close> and \<open>parseTimeFromText\<close>) give the zero-padded
  time of the same instant, and the conversion of the booking pipeline takes that time
  back to the label. In particular \<open>12:00 AM\<close> is \<open>00:00\<close>, \<open>12:00 PM\<close> is \<open>12:00\<close> and
  \<open>1:00 PM\<close> is \<open>13:00\<close>. The pipeline's conversion is a right inverse: for every time
  \<open>HH:MM\<close> of a day, converting to a label and back gives the time again.
\<close>

theorem time_conversion_roundtrip:
  assumes "1 \<le> h" and "h \<le> 12" and "m < 60" and "H < 24"
  shows "to24h (label12 h m pm) = Some (hhmm (hour24 h pm) m) \<and>
         parseTimeFromText (label12 h m pm) = Some (hhmm (hour24 h pm) m) \<and>
         time12h_of (hhmm (hour24 h pm) m) = Inr (label12 h m pm) \<and>
         (\<exists>l. time12h_of (hhmm H m) = Inr l \<and> to24h l = Some (hhmm H m) \<and>
              parseTimeFromText l = Some (hhmm H m)) \<and>
         to24h ''12:00 AM'' = Some ''00:00'' \<and> to24h ''12:00 PM'' = Some ''12:00'' \<and>
         to24h ''1:00 PM'' = Some ''13:00'' \<and>
         parseTimeFromText ''12:00 AM'' = Some ''00:00'' \<and>
         parseTimeFromText ''12:00 PM'' = Some ''12:00'' \<and>
         parseTimeFromText ''1:00 PM'' = Some ''13:00''"
proof -
  have m100: "m < 100" using assms(3) by simp
  have fwd: "to24h (label12 h m pm) = Some (hhmm (hour24 h pm) m)"
    by (rule to24h_label12 [OF assms(1,2) m100])
  have fwd': "parseTimeFromText (label12 h m pm) = Some (hhmm (hour24 h pm) m)"
    by (rule parseTimeFromText_label12 [OF assms(1,2) m100])
  have bwd: "time12h_of (hhmm (hour24 h pm) m) = Inr (label12 h m pm)"
  proof -
    have "(if hour24 h pm = 0 then 12 else if hour24 h pm > 12 then hour24 h pm - 12 else hour24 h pm) = h"
      using assms(1,2) by (auto simp: hour24_def)
    moreover have "(hour24 h pm \<ge> 12) = pm"
      using assms(1,2) by (auto simp: hour24_def)
    ultimately show ?thesis by (simp add: time12h_of_hhmm)
  qed
  define h' where "h' = (if H = 0 then 12 else if H > 12 then H - 12 else H)"
  have h'1: "1 \<le> h'" and h'2: "h' \<le> 12" using assms(4) by (auto simp: h'_def)
  have H: "hour24 h' (H \<ge> 12) = H" using assms(4) by (auto simp: h'_def hour24_def)
  have l: "time12h_of (hhmm H m) = Inr (label12 h' m (H \<ge> 12))"
    by (simp add: time12h_of_hhmm h'_def)
  have inv: "\<exists>l. time12h_of (hhmm H m) = Inr l \<and> to24h l = Some (hhmm H m) \<and>
              parseTimeFromText l = Some (hhmm H m)"
    using l to24h_label12 [OF h'1 h'2 m100, of "H \<ge> 12"]
      parseTimeFromText_label12 [OF h'1 h'2 m100, of "H \<ge> 12"] H
    by simp
  have ex: "to24h ''12:00 AM'' = Some ''00:00''" "to24h ''12:00 PM'' = Some ''12:00''"
    "to24h ''1:00 PM'' = Some ''13:00''"
    "parseTimeFromText ''12:00 AM'' = Some ''00:00''"
    "parseTimeFromText ''12:00 PM'' = Some ''12:00''"
    "parseTimeFromText ''1:00 PM'' = Some ''13:00''"
    by code_simp+
  show ?thesis using fwd fwd' bwd inv ex by simp
qed

theorem time_conversion_roundtrip_witness:
  "to24h ''3:05 PM'' = Some ''15:05'' \<and> parseTimeFromText ''3:05 PM'' = Some ''15:05'' \<and>
   time12h_of ''15:05'' = Inr ''3:05 PM'' \<and> time12h_of ''00:05'' = Inr ''12:05 AM''"
proof -
  have l: "label12 3 5 True = ''3:05 PM''" by code_simp
  have t: "hhmm (hour24 3 True) 5 = ''15:05''" by code_simp
  have z: "time12h_of ''00:05'' = Inr ''12:05 AM''" by code_simp
  from time_conversion_roundtrip [of 3 5 0 True] show ?thesis
    unfolding l t using z by simp
qed

lemma take_hour_SomeD:
  "take_hour s = Some (hh, r) \<Longrightarrow> list_all is_digit hh \<and> hh \<noteq> []"
  by (cases s rule: take_hour.cases) (auto split: if_splits)

lemma match_time12_SomeD:
  "match_time12 ci s = Some (hh, mm, ws, ap, rest) \<Longrightarrow>
     list_all is_digit hh \<and> hh \<noteq> [] \<and> list_all is_digit mm \<and> mm \<noteq> []"
  by (auto simp: match_time12_def split: option.splits list.splits if_splits dest: take_hour_SomeD)

lemma to24h_shape:
  assumes "to24h s = Some t"
  shows "\<exists>n mm. list_all is_digit mm \<and> mm \<noteq> [] \<and> t = padStart2 (show_nat n) @ '':'' @ mm"
proof -
  from assms obtain hh mm ws ap rest where
    m: "match_time12 True (trim s) = Some (hh, mm, ws, ap, rest)"
    by (auto simp: to24h_def split: option.splits)
  from match_time12_SomeD [OF m] have hh: "list_all is_digit hh" "hh \<noteq> []"
    and mm: "list_all is_digit mm" "mm \<noteq> []" by auto
  have p: "parseInt10 hh = Some (int (dec hh))" by (rule parseInt10_digits [OF hh])
  have "\<exists>n. t = padStart2 (show_nat n) @ '':'' @ mm"
  proof (cases "dec hh = 12")
    case True
    show ?thesis
    proof (cases "toUpperCase ap = ''PM''")
      case True
      with \<open>dec hh = 12\<close> assms m p have "t = padStart2 (show_nat 12) @ '':'' @ mm"
        using num_toString_nat [of 12] by (simp add: to24h_def Let_def split: if_splits)
      then show ?thesis by blast
    next
      case False
      with \<open>dec hh = 12\<close> assms m p have "t = padStart2 (show_nat 0) @ '':'' @ mm"
        using num_toString_nat [of 0] by (simp add: to24h_def Let_def split: if_splits)
      then show ?thesis by blast
    qed
  next
    case False
    show ?thesis
    proof (cases "toUpperCase ap = ''PM''")
      case True
      with \<open>dec hh \<noteq> 12\<close> assms m p have "t = padStart2 (show_nat (dec hh + 12)) @ '':'' @ mm"
        using num_toString_nat [of "dec hh + 12"]
        by (simp add: to24h_def Let_def num_add_def split: if_splits)
      then show ?thesis by blast
    next
      case False
      with \<open>dec hh \<noteq> 12\<close> assms m p have "t = padStart2 (show_nat (dec hh)) @ '':'' @ mm"
        using num_toString_nat [of "dec hh"]
        by (simp add: to24h_def Let_def split: if_splits)
      then show ?thesis by blast
    qed
  qed
  then show ?thesis using mm by auto
qed

lemma durationMinutes_shape:
  assumes "list_all is_digit mm1" "mm1 \<noteq> []" "list_all is_digit mm2" "mm2 \<noteq> []"
  shows "durationMinutes (padStart2 (show_nat n1) @ '':'' @ mm1) (padStart2 (show_nat n2) @ '':'' @ mm2)
           = Some (int (n2 * 60 + dec mm2) - int (n1 * 60 + dec mm1))"
  using assms
  by (simp add: durationMinutes_def split_colon_pad Number_js_pad Number_js_digits
      nth_num_def num_add_def num_sub_def num_mul_def)

lemma hour_of_shape:
  assumes "list_all is_digit mm"
  shows "parseInt10 (case split_colon (padStart2 (show_nat n) @ '':'' @ mm) of x # _ \<Rightarrow> x | [] \<Rightarrow> ''undefined'')
           = Some (int n)"
  using assms by (simp add: split_colon_pad parseInt10_pad)

lemma scanSpan_SomeD:
  assumes "scanSpan today url prefs courtLabel span = Inr (Some slot)"
  shows "\<exists>title m1 m2 end24. sp_title span = Inr (Some title) \<and> find_range title = Some (m1, m2) \<and>
           to24h m1 = Some (time_24h slot) \<and> to24h m2 = Some end24 \<and>
           minutes slot = durationMinutes (time_24h slot) end24"
proof -
  from assms have v: "sp_visible span" "is_book_now (trim (sp_innerText span))"
    by (auto simp: scanSpan_def split: if_splits)
  from assms v have a: "sp_available span = Inr True"
    by (cases "sp_available span") (auto simp: scanSpan_def bindE_def split: if_splits)
  from assms v a obtain t where t: "sp_title span = Inr t"
    by (cases "sp_title span") (auto simp: scanSpan_def bindE_def)
  define titleAttr where "titleAttr = (case t of None \<Rightarrow> [] | Some x \<Rightarrow> x)"
  from assms v a t obtain m1 m2 where f: "find_range titleAttr = Some (m1, m2)"
    by (cases "find_range titleAttr") (auto simp: scanSpan_def bindE_def titleAttr_def)
  have "t \<noteq> None" using f by (cases t) (auto simp: titleAttr_def)
  then obtain title where title: "t = Some title" by auto
  from assms v a t f obtain start24 end24 where
    c: "to24h m1 = Some start24" "to24h m2 = Some end24"
    by (cases "to24h m1"; cases "to24h m2") (auto simp: scanSpan_def bindE_def titleAttr_def)
  from assms v a t f c have
    "time_24h slot = start24 \<and> minutes slot = durationMinutes start24 end24"
    by (cases "sp_dataDate span")
       (auto simp: scanSpan_def bindE_def titleAttr_def Let_def split: if_splits)
  then show ?thesis using t title f c by (auto simp: titleAttr_def)
qed






























lemma includes_js_prefix: "includes_js (p @ r) p"
proof (cases "p @ r")
  case Nil
  then show ?thesis by simp
next
  case (Cons c cs)
  have "prefix p (p @ r)" by simp
  then show ?thesis unfolding Cons by simp
qed


lemma findSlot_none:
  assumes "\<forall>t \<in> set titles. \<exists>a. t = Inr a \<and>
             \<not> includes_js (toLowerCase (case a of None \<Rightarrow> [] | Some x \<Rightarrow> x)) (toLowerCase time12h)"
  shows "findSlot time12h titles = Inr False"
  using assms by (induction titles) auto

text \<open>
  C7. A booking request whose start time, converted to the portal's 12-hour label, is
  contained in the \<open>title\<close> of no bookable marker of the facility page (compared without
  regard to case, as the source does) ends with \<open>success: false\<close> and a message that
  contains "Could not find available slot". The facility page is reached: the session
  is set up, the navigation and the login flow succeed, the titles can be read, and
  the browser closes.
\<close>

theorem bookSlot_no_matching_slot:
  assumes "openSession (bk_session w) = None" and "ses_close (bk_session w) = None"
      and "bk_goto w = None"
      and "fst (ensureLoggedIn_r2 BASE_URL user pass (bk_login w) 0) = Inr pg"
      and "includes_js (bk_urlAfterLogin w) ''BookMe4LandingPages/Facility'' \<or> bk_gotoBack w = None"
      and "time12h_of (req_time_24h request) = Inr time12h"
      and "bk_spans w = Inr titles"
      and "\<forall>t \<in> set titles. \<exists>a. t = Inr a \<and>
             \<not> includes_js (toLowerCase (case a of None \<Rightarrow> [] | Some x \<Rightarrow> x)) (toLowerCase time12h)"
  shows "\<exists>r. bookSlot BASE_URL user pass w request = (Inr r, Closed) \<and> \<not> success r \<and>
             message r = ''Could not find available slot at '' @ req_time_24h request @
                         '' ('' @ time12h @ '')'' \<and>
             includes_js (message r) ''Could not find available slot''"
proof -
  have g: "(if \<not> includes_js (bk_urlAfterLogin w) ''BookMe4LandingPages/Facility''
            then bk_gotoBack w else None) = None"
    using assms(5) by auto
  have p: "bookPipeline BASE_URL user pass w request =
        Inr (failure (''Could not find available slot at '' @ req_time_24h request @
                             '' ('' @ time12h @ '')''))"
    unfolding bookPipeline_def
    by (simp add: assms(3,4,6,7) g findSlot_none [OF assms(8)] andThen_def bindE_def)
  have i: "includes_js (''Could not find available slot at '' @ req_time_24h request @
                         '' ('' @ time12h @ '')'') ''Could not find available slot''"
    using includes_js_prefix [of "''Could not find available slot''"
        "'' at '' @ req_time_24h request @ '' ('' @ time12h @ '')''"]
    by simp
  show ?thesis
    using i by (simp add: bookSlot_def assms(1,2) p finallyClose_def failure_def)
qed

theorem bookSlot_no_matching_slot_witness:
  "bookSlot ''https://p.example/List'' ''u'' ''p'' book_quiet (request_at ''09:00'') =
     (Inr \<lparr> success = False, confirmation_number = None,
            message = ''Could not find available slot at 09:00 (9:00 AM)'',
            booked_slot = None \<rparr>, Closed) \<and>
   (\<exists>r. bookSlot ''https://p.example/List'' ''u'' ''p'' book_quiet (request_at ''09:00'') =
          (Inr r, Closed) \<and> \<not> success r \<and>
        includes_js (message r) ''Could not find available slot'')"
proof -
  have a: "openSession (bk_session book_quiet) = None" "ses_close (bk_session book_quiet) = None"
    "bk_goto book_quiet = None"
    "fst (ensureLoggedIn_r2 ''https://p.example/List'' ''u'' ''p'' (bk_login book_quiet) 0) = Inr 0"
    "includes_js (bk_urlAfterLogin book_quiet) ''BookMe4LandingPages/Facility'' \<or>
       bk_gotoBack book_quiet = None"
    "time12h_of (req_time_24h (request_at ''09:00'')) = Inr ''9:00 AM''"
    "bk_spans book_quiet = Inr [Inr (Some ''3:00 PM-4:00 PM''), Inr (Some ''7:00 PM-8:00 PM'')]"
    by code_simp+
  have b: "\<forall>t \<in> set [Inr (Some ''3:00 PM-4:00 PM''), Inr (Some ''7:00 PM-8:00 PM'')].
            \<exists>a. t = Inr a \<and>
             \<not> includes_js (toLowerCase (case a of None \<Rightarrow> [] | Some x \<Rightarrow> x)) (toLowerCase ''9:00 AM'')"
  proof -
    have "\<not> includes_js (toLowerCase ''3:00 PM-4:00 PM'') (toLowerCase ''9:00 AM'')"
      "\<not> includes_js (toLowerCase ''7:00 PM-8:00 PM'') (toLowerCase ''9:00 AM'')"
      by code_simp+
    then show ?thesis by simp
  qed
  have e: "bookSlot ''https://p.example/List'' ''u'' ''p'' book_quiet (request_at ''09:00'') =
     (Inr \<lparr> success = False, confirmation_number = None,
            message = ''Could not find available slot at 09:00 (9:00 AM)'',
            booked_slot = None \<rparr>, Closed)"
    by code_simp
  from bookSlot_no_matching_slot [OF a b]
  have "\<exists>r. bookSlot ''https://p.example/List'' ''u'' ''p'' book_quiet (request_at ''09:00'') =
          (Inr r, Closed) \<and> \<not> success r \<and>
        includes_js (message r) ''Could not find available slot''"
    by blast
  with e show ?thesis by blast
qed













text \<open>
  C9 fails in the code: \<open>browser.newContext()\<close> and \<open>context.newPage()\<close> stand between
  the launch and the \<open>try\<close> block whose \<open>finally\<close> closes the browser. When the context
  cannot be created, \<open>checkAvailability\<close> and \<open>bookSlot\<close> throw and leave the browser
  they launched running.
\<close>

theorem browser_left_running:
  "checkAvailability ''https://p.example/List'' ''u'' ''p'' world_context_fails noPrefs =
     (Inl (Error ''browser.newContext: Browser has been closed''), Running) \<and>
   bookSlot ''https://p.example/List'' ''u'' ''p'' book_context_fails (request_at ''19:00'') =
     (Inl (Error ''browser.newContext: Browser has been closed''), Running)"
  by code_simp

section \<open>Further properties\<close>

lemma snd_finallyClose: "snd (finallyClose s r) = (if ses_close s = None then Closed else Running)"
  by (simp add: finallyClose_def split: option.splits)

text \<open>
  Once the session is set up, every public operation ends with \<open>browser.close()\<close>
  called: the browser is closed on return and on throw alike, unless the close itself
  rejects.
\<close>

theorem browser_closed_after_try:
  assumes "openSession (chk_session w) = None" and "openSession (bk_session w3) = None"
  shows "snd (checkAvailability BASE_URL user pass w prefs) =
           (if ses_close (chk_session w) = None then Closed else Running) \<and>
         snd (bookSlot BASE_URL user pass w3 request) =
           (if ses_close (bk_session w3) = None then Closed else Running)"
  using assms
  by (simp add: checkAvailability_def bookSlot_def snd_finallyClose)

theorem browser_closed_after_try_witness:
  "snd (checkAvailability ''https://p.example/List'' ''u'' ''p'' world_scan_throws noPrefs) = Closed \<and>
   snd (bookSlot ''https://p.example/List'' ''u'' ''p'' book_click_throws (request_at ''19:00'')) = Closed"
proof -
  have a: "openSession (chk_session world_scan_throws) = None"
    "openSession (bk_session book_click_throws) = None"
    by code_simp+
  have c: "ses_close (chk_session world_scan_throws) = None"
    "ses_close (bk_session book_click_throws) = None"
    by code_simp+
  from browser_closed_after_try [OF a, of "''https://p.example/List''" "''u''" "''p''" noPrefs
      "request_at ''19:00''"]
  show ?thesis by (simp add: c)
qed

text \<open>
  A schedule view with markers titled \<open>3:00 PM-4:00 PM\<close> and \<open>7:00 PM-8:00 PM\<close>, scanned
  with start hours from 18 to 22, yields exactly one slot, at \<open>19:00\<close> for 60 minutes.
\<close>

theorem scenario_evening_slot:
  "extractSlotsFromScheduler ''2025-11-03''
     \<lparr> sch_spans = Inr [marker ''3:00 PM-4:00 PM'', marker ''7:00 PM-8:00 PM''],
       sch_url = ''https://p.example/facility/1'' \<rparr> prefs_evening ''Court 01'' =
   Inr [\<lparr> date_iso = ''2025-11-03'', time_24h = ''19:00'', minutes = Some 60,
          location = ''Court 01'', deep_link = Some ''https://p.example/facility/1'' \<rparr>]"
  by code_simp

text \<open>
  The example booking, in which every step finds its control, returns \<open>success: true\<close>
  with the requested time, \<open>duration_hours * 60\<close> and the court's name.
\<close>

theorem scenario_successful_booking:
  "bookSlot ''https://p.example/List'' ''u'' ''p'' book_quiet (request_at ''19:00'') =
     (Inr \<lparr> success = True, confirmation_number = Some ''A-1001'',
            message = ''Booking completed successfully'',
            booked_slot = Some \<lparr> bs_time = ''19:00'', bs_duration = 60,
                                 bs_location = ''Court 01'' \<rparr> \<rparr>, Closed)"
  by code_simp

text \<open>
  The preference filter of the revision that parses marker titles
  (\<open>extractSlotsFromScheduler\<close>, src/unnamed/part_003 lines 432-450). For a marker that reaches the filter (visible,
  labelled "Book Now", available, with a time range in its title) and every
  \<open>Preferences\<close> value, a slot is kept if and only if the start hour is at least
  \<open>start_hour\<close> when that is given, less than \<open>end_hour\<close> when that is given, and the
  duration is at least \<open>min_minutes\<close> when that is given; a field that is absent
  filters nothing. The marker is otherwise skipped, and the slot kept carries the start
  time and the duration.
\<close>

theorem scanSpan_filter:
  assumes "sp_visible span" and "is_book_now (trim (sp_innerText span))"
      and "sp_available span = Inr True" and "sp_title span = Inr (Some title)"
      and "find_range title = Some (m1, m2)"
      and "to24h m1 = Some start24" and "to24h m2 = Some end24"
      and "sp_dataDate span = Inr d"
  shows "\<exists>H mm mins.
           start24 = padStart2 (show_nat H) @ '':'' @ mm \<and> list_all is_digit mm \<and>
           durationMinutes start24 end24 = Some mins \<and>
           ((\<exists>slot. scanSpan today url prefs courtLabel span = Inr (Some slot)) \<longleftrightarrow>
              (\<forall>sh. start_hour prefs = Some sh \<longrightarrow> sh \<le> int H) \<and>
              (\<forall>eh. end_hour prefs = Some eh \<longrightarrow> int H < eh) \<and>
              (\<forall>mn. min_minutes prefs = Some mn \<longrightarrow> mn \<le> mins)) \<and>
           (scanSpan today url prefs courtLabel span = Inr None \<or>
            (\<exists>slot. scanSpan today url prefs courtLabel span = Inr (Some slot) \<and>
                    time_24h slot = start24 \<and> minutes slot = Some mins))"
proof -
  from to24h_shape [OF assms(6)] obtain H mm where
    mm: "list_all is_digit mm" "mm \<noteq> []" and s: "start24 = padStart2 (show_nat H) @ '':'' @ mm"
    by blast
  from to24h_shape [OF assms(7)] obtain H2 mm2 where
    mm2: "list_all is_digit mm2" "mm2 \<noteq> []" and e: "end24 = padStart2 (show_nat H2) @ '':'' @ mm2"
    by blast
  define mins where "mins = int (H2 * 60 + dec mm2) - int (H * 60 + dec mm)"
  have d: "durationMinutes start24 end24 = Some mins"
    unfolding s e mins_def by (rule durationMinutes_shape [OF mm mm2])
  have h: "parseInt10 (case split_colon start24 of x # _ \<Rightarrow> x | [] \<Rightarrow> ''undefined'') = Some (int H)"
    unfolding s by (rule hour_of_shape [OF mm(1)])
  have ne: "start24 \<noteq> []" "end24 \<noteq> []" by (simp_all add: s e)
  define slot where
    "slot = \<lparr> date_iso = (if d \<noteq> [] \<and> is_iso_date d then d else today),
              time_24h = start24, minutes = Some mins, location = courtLabel,
              deep_link = Some url \<rparr>"
  have sc: "scanSpan today url prefs courtLabel span =
        (if (case start_hour prefs of None \<Rightarrow> False | Some sh \<Rightarrow> int H < sh) then Inr None
         else if (case end_hour prefs of None \<Rightarrow> False | Some eh \<Rightarrow> eh \<le> int H) then Inr None
         else if (case min_minutes prefs of None \<Rightarrow> False | Some mn \<Rightarrow> mins < mn) then Inr None
         else Inr (Some slot))"
    using assms(1-5,8) ne
    by (cases "start_hour prefs"; cases "end_hour prefs"; cases "min_minutes prefs")
       (simp_all add: scanSpan_def bindE_def assms(6,7) h d num_lt_def num_ge_def slot_def
          Let_def not_less)
  have iff: "(\<exists>slot. scanSpan today url prefs courtLabel span = Inr (Some slot)) \<longleftrightarrow>
              (\<forall>sh. start_hour prefs = Some sh \<longrightarrow> sh \<le> int H) \<and>
              (\<forall>eh. end_hour prefs = Some eh \<longrightarrow> int H < eh) \<and>
              (\<forall>mn. min_minutes prefs = Some mn \<longrightarrow> mn \<le> mins)"
    unfolding sc
    by (cases "start_hour prefs"; cases "end_hour prefs"; cases "min_minutes prefs") auto
  have alt: "scanSpan today url prefs courtLabel span = Inr None \<or>
            (\<exists>slot. scanSpan today url prefs courtLabel span = Inr (Some slot) \<and>
                    time_24h slot = start24 \<and> minutes slot = Some mins)"
    unfolding sc by (simp add: slot_def)
  show ?thesis using s mm(1) d iff alt by blast
qed

theorem scanSpan_filter_witness:
  "scanSpan ''2025-11-03'' ''https://p.example/facility/1'' prefs_evening ''Court 01''
     (marker ''3:00 PM-4:00 PM'') = Inr None \<and>
   (\<exists>slot. scanSpan ''2025-11-03'' ''https://p.example/facility/1'' prefs_evening ''Court 01''
     (marker ''7:00 PM-8:00 PM'') = Inr (Some slot) \<and> time_24h slot = ''19:00'' \<and>
     minutes slot = Some 60)"
proof -
  have a: "sp_visible (marker ''7:00 PM-8:00 PM'')"
    "is_book_now (trim (sp_innerText (marker ''7:00 PM-8:00 PM'')))"
    "sp_available (marker ''7:00 PM-8:00 PM'') = Inr True"
    "sp_title (marker ''7:00 PM-8:00 PM'') = Inr (Some ''7:00 PM-8:00 PM'')"
    "find_range ''7:00 PM-8:00 PM'' = Some (''7:00 PM'', ''8:00 PM'')"
    "to24h ''7:00 PM'' = Some ''19:00''" "to24h ''8:00 PM'' = Some ''20:00''"
    "sp_dataDate (marker ''7:00 PM-8:00 PM'') = Inr []"
    by code_simp+
  have d: "durationMinutes ''19:00'' ''20:00'' = Some 60" by code_simp
  have n: "scanSpan ''2025-11-03'' ''https://p.example/facility/1'' prefs_evening ''Court 01''
     (marker ''3:00 PM-4:00 PM'') = Inr None" by code_simp
  have y: "scanSpan ''2025-11-03'' ''https://p.example/facility/1'' prefs_evening ''Court 01''
     (marker ''7:00 PM-8:00 PM'') \<noteq> Inr None" by code_simp
  from scanSpan_filter [OF a, of "''2025-11-03''" "''https://p.example/facility/1''"
      prefs_evening "''Court 01''"] d y
  have "\<exists>slot. scanSpan ''2025-11-03'' ''https://p.example/facility/1'' prefs_evening ''Court 01''
     (marker ''7:00 PM-8:00 PM'') = Inr (Some slot) \<and> time_24h slot = ''19:00'' \<and>
     minutes slot = Some 60"
    by auto
  with n show ?thesis by simp
qed

lemma extractLoop_kept:
  assumes "\<forall>span \<in> set spans. \<exists>r. scanSpan today url prefs courtLabel span = Inr r"
  shows "extractLoop today url prefs courtLabel spans slots =
           Inr (slots @ List.map_filter
                  (\<lambda>span. orElse (scanSpan today url prefs courtLabel span) None) spans)"
  using assms
proof (induction spans arbitrary: slots)
  case Nil
  then show ?case by (simp add: List.map_filter_simps)
next
  case (Cons span spans)
  from Cons.prems obtain r where r: "scanSpan today url prefs courtLabel span = Inr r" by auto
  from Cons.prems have rest: "\<forall>span \<in> set spans. \<exists>r. scanSpan today url prefs courtLabel span = Inr r"
    by simp
  show ?case
    by (cases r) (simp_all add: r Cons.IH [OF rest] orElse_def List.map_filter_simps)
qed

text \<open>
  In that revision the scan of a schedule view returns the slots of the markers its
  loop keeps, in the order of the markers, provided no read of a marker throws.
\<close>

theorem extractSlotsFromScheduler_kept:
  assumes "sch_spans page = Inr spans"
      and "\<forall>span \<in> set spans. \<exists>r. scanSpan today (sch_url page) prefs courtLabel span = Inr r"
  shows "extractSlotsFromScheduler today page prefs courtLabel =
           Inr (List.map_filter
                  (\<lambda>span. orElse (scanSpan today (sch_url page) prefs courtLabel span) None) spans)"
  using extractLoop_kept [OF assms(2), of "[]"]
  by (simp add: extractSlotsFromScheduler_def bindE_def assms(1))

theorem extractSlotsFromScheduler_kept_witness:
  "extractSlotsFromScheduler ''2025-11-03''
     \<lparr> sch_spans = Inr [marker ''9:00 AM-10:00 AM'', marker ''7:00 PM-8:30 PM''],
       sch_url = ''https://p.example/facility/1'' \<rparr> prefs_evening ''Court 01'' =
   Inr [\<lparr> date_iso = ''2025-11-03'', time_24h = ''19:00'', minutes = Some 90,
          location = ''Court 01'', deep_link = Some ''https://p.example/facility/1'' \<rparr>]"
proof -
  let ?spans = "[marker ''9:00 AM-10:00 AM'', marker ''7:00 PM-8:30 PM'']"
  let ?page = "\<lparr> sch_spans = Inr ?spans, sch_url = ''https://p.example/facility/1'' \<rparr>"
  have a: "sch_spans ?page = Inr ?spans" by simp
  have s: "scanSpan ''2025-11-03'' ''https://p.example/facility/1'' prefs_evening ''Court 01''
             (marker ''9:00 AM-10:00 AM'') = Inr None"
    "scanSpan ''2025-11-03'' ''https://p.example/facility/1'' prefs_evening ''Court 01''
             (marker ''7:00 PM-8:30 PM'') =
       Inr (Some \<lparr> date_iso = ''2025-11-03'', time_24h = ''19:00'', minutes = Some 90,
          location = ''Court 01'', deep_link = Some ''https://p.example/facility/1'' \<rparr>)"
    by code_simp+
  have b: "\<forall>span \<in> set ?spans. \<exists>r. scanSpan ''2025-11-03'' (sch_url ?page) prefs_evening ''Court 01'' span = Inr r"
    using s by simp
  from extractSlotsFromScheduler_kept [OF a b] show ?thesis
    by (simp add: s orElse_def List.map_filter_simps)
qed

end
